theory Spec2Isabelle
  imports Main "HOL-Library.Sublist"
begin

section \<open>The backend seeding routine (backend/src/utils/seed.ts)\<close>

text \<open>
  The file holds three functions: \<open>ensureFirstAdmin\<close>, \<open>seedDefaultAIConfigs\<close> and the
  exported \<open>seedBackend\<close>. All three are \<^verbatim>\<open>async\<close> and return \<^verbatim>\<open>Promise<void>\<close>;
  every call of another asynchronous function is awaited, so a run is one sequence of
  steps. A function is modelled as a state transformer that returns, next to the state
  it leaves, either the value it resolves with (\<open>Inr\<close>) or the value it throws
  (\<open>Inl\<close>).

  The state is a pair: the list of observable events of the run so far (a logger call
  or a call of a collaborator, in the order they happen) and the state of everything
  outside this file (the credential service, the database, the AI configuration store,
  the process environment), of an arbitrary type \<open>'x\<close>.
\<close>

subsection \<open>Values\<close>

text \<open>
  A thrown JavaScript value, by what the catch block of \<open>seedBackend\<close> reads of it in
  \<^verbatim>\<open>error instanceof Error ? error.message : String(error)\<close>:
  \<^item> \<open>JsError message\<close> is an instance of \<open>Error\<close> with that message;
  \<^item> \<open>JsOther s\<close> is any other value that \<^verbatim>\<open>String(error)\<close> converts, to \<open>s\<close>;
  \<^item> \<open>JsUnrenderable t\<close> is a value for which the expression itself throws \<open>t\<close>: an
    object without \<^verbatim>\<open>toString\<close> and \<^verbatim>\<open>valueOf\<close>, such as \<^verbatim>\<open>Object.create(null)\<close>, makes
    \<^verbatim>\<open>String(error)\<close> throw a \<open>TypeError\<close>.
\<close>

datatype thrown = JsError string | JsOther string | JsUnrenderable thrown

text \<open>
  A JavaScript \<open>number\<close>, by the two things the code reads of the table count: the
  test \<^verbatim>\<open>tableCount > 0\<close> and its text in a template literal.
\<close>

record js_number =
  greater_than_zero :: bool
  in_template :: string

datatype level = Info | Warn | Error

type_synonym meta = "(string \<times> string) list"

text \<open>The arguments of \<^verbatim>\<open>aiConfigService.create(modality, provider, model, systemPrompt?)\<close>;
  an omitted \<open>systemPrompt\<close> is \<open>None\<close> (\<^verbatim>\<open>undefined\<close>).\<close>

record ai_config =
  modality :: string
  provider :: string
  model :: string
  systemPrompt :: "string option"

datatype call =
    GetAuthInstance
  | GetDbInstance
  | InitializeApiKey
  | GetUserTableCount
  | NewAIConfigService
  | FindAll
  | Create ai_config

datatype event = Logged level string meta | Called call

record 'x world =
  events :: "event list"
  outside :: 'x

type_synonym ('a, 'x) outcome = "(thrown + 'a) \<times> 'x"

type_synonym ('a, 'x) ext = "'x \<Rightarrow> ('a, 'x) outcome"

type_synonym ('a, 'x) action = "'x world \<Rightarrow> ('a, 'x world) outcome"

subsection \<open>The collaborators\<close>

text \<open>
  The imported modules are not part of the file. Each of their operations is a
  parameter: an arbitrary function of the outside state that throws or returns, and
  leaves a new outside state in both cases.
  \<^item> \<open>AuthService_getInstance\<close>, \<open>DatabaseManager_getInstance\<close>: the two singleton
    accessors; the handles they return carry no data of their own here.
  \<^item> \<open>initializeApiKey\<close>, \<open>getUserTableCount\<close>: the methods called on the handles.
  \<^item> \<open>newAIConfigService\<close>, \<open>findAll\<close>, \<open>create\<close>: the constructor and the two methods
    of \<open>AIConfigService\<close>.
  \<^item> \<open>process_env\<close>: \<^verbatim>\<open>process.env\<close>, read from the outside state; an unset variable
    is \<open>None\<close>.
\<close>

text \<open>
  Modelled from the spec: the environment classifier \<open>isCloudEnvironment\<close> of
  \<^verbatim>\<open>@/utils/environment.js\<close> is missing; the spec gives it as a pure boolean function
  of the process configuration, so the field of that name reads the outside state and
  neither throws nor changes it.
\<close>

record 'x services =
  AuthService_getInstance :: "(unit, 'x) ext"
  DatabaseManager_getInstance :: "(unit, 'x) ext"
  initializeApiKey :: "(string, 'x) ext"
  getUserTableCount :: "(js_number, 'x) ext"
  newAIConfigService :: "(unit, 'x) ext"
  findAll :: "(ai_config list, 'x) ext"
  create :: "ai_config \<Rightarrow> (unit, 'x) ext"
  process_env :: "'x \<Rightarrow> string \<Rightarrow> string option"
  isCloudEnvironment :: "'x \<Rightarrow> bool"

text \<open>
  Modelled from the spec: the logging sink of \<^verbatim>\<open>@/utils/logger.js\<close> is missing; the
  spec gives \<^verbatim>\<open>info/warn/error(message, meta?)\<close> as best-effort logging that never
  throws. A logger call appends one event and does nothing else.
\<close>

definition logger :: "level \<Rightarrow> string \<Rightarrow> meta \<Rightarrow> 'x world \<Rightarrow> 'x world" where
  "logger l msg m w = w\<lparr>events := events w @ [Logged l msg m]\<rparr>"

text \<open>Calling a collaborator: the call is recorded, then it runs on the outside state.
  The state it leaves is kept whether it returns or throws.\<close>

definition invoke :: "call \<Rightarrow> ('a, 'x) ext \<Rightarrow> ('a, 'x) action" where
  "invoke c f w =
     (case f (outside w) of
        (r, x) \<Rightarrow> (r, \<lparr>events = events w @ [Called c], outside = x\<rparr>))"

text \<open>\<^verbatim>\<open>const v = await m; k(v)\<close>: a rejected promise is rethrown at the \<^verbatim>\<open>await\<close>, so
  the rest of the function body is skipped; otherwise the body goes on with the value,
  from the state in which the awaited call ended.\<close>

definition await :: "('a, 'x world) outcome \<Rightarrow> ('a \<Rightarrow> ('b, 'x) action) \<Rightarrow> ('b, 'x world) outcome" where
  "await m k = (case m of (Inl e, w) \<Rightarrow> (Inl e, w) | (Inr v, w) \<Rightarrow> k v w)"

subsection \<open>Strings\<close>

text \<open>
  A \<open>string\<close> is a list of bytes; the source file is UTF-8, and the three symbols of
  its messages are written as their UTF-8 bytes: U+2705 (check mark), U+26A0 U+FE0F
  (warning sign) and U+1F680 (rocket).
\<close>

definition check_mark :: string where
  "check_mark = [CHR 0xE2, CHR 0x9C, CHR 0x85]"

definition warning_sign :: string where
  "warning_sign = [CHR 0xE2, CHR 0x9A, CHR 0xA0, CHR 0xEF, CHR 0xB8, CHR 0x8F]"

definition rocket :: string where
  "rocket = [CHR 0xF0, CHR 0x9F, CHR 0x9A, CHR 0x80]"

text \<open>JavaScript truthiness of a string that may be \<^verbatim>\<open>undefined\<close>: \<^verbatim>\<open>undefined\<close>
  and the empty string are falsy, every other string is truthy.\<close>

fun truthy :: "string option \<Rightarrow> bool" where
  "truthy None = False"
| "truthy (Some s) = (s \<noteq> [])"

text \<open>\<^verbatim>\<open>v || d\<close> for such a string \<open>v\<close> and a string literal \<open>d\<close>.\<close>

fun or_default :: "string option \<Rightarrow> string \<Rightarrow> string" where
  "or_default None d = d"
| "or_default (Some s) d = (if s = [] then d else s)"

text \<open>A template literal renders \<^verbatim>\<open>undefined\<close> as the word.\<close>

fun template :: "string option \<Rightarrow> string" where
  "template None = ''undefined''"
| "template (Some s) = s"

text \<open>
  Decimal digits of an integer. They are the text JavaScript gives the number in a
  template literal as long as its magnitude is below \<open>2^53\<close>; a \<open>number\<close> is a double,
  so above that bound it holds only some integers and prints the shortest digits that
  read back as the same double, and from \<open>10^21\<close> on it prints an exponent. The digits
  are used only to build the table count of a concrete run, never by the code above.
\<close>

definition digit :: "nat \<Rightarrow> char" where
  "digit d = char_of (48 + d)"

fun show_nat :: "nat \<Rightarrow> string" where
  "show_nat n = (if n < 10 then [digit n] else show_nat (n div 10) @ [digit (n mod 10)])"

definition show_int :: "int \<Rightarrow> string" where
  "show_int i = (if i < 0 then CHR ''-'' # show_nat (nat (- i)) else show_nat (nat i))"

text \<open>\<^verbatim>\<open>error instanceof Error ? error.message : String(error)\<close>: the text, or the value
  the conversion throws.\<close>

fun error_text :: "thrown \<Rightarrow> thrown + string" where
  "error_text (JsError message) = Inr message"
| "error_text (JsOther s) = Inr s"
| "error_text (JsUnrenderable t) = Inl t"

subsection \<open>ensureFirstAdmin\<close>

text \<open>
  TypeScript declares both parameters \<open>string\<close>; at run time an argument can still be
  \<^verbatim>\<open>undefined\<close>, which the test treats like the empty string, so the parameters are
  optional strings here.
\<close>

definition ensureFirstAdmin :: "string option \<Rightarrow> string option \<Rightarrow> (unit, 'x) action" where
  "ensureFirstAdmin adminEmail adminPassword w =
     (if truthy adminEmail \<and> truthy adminPassword
      then (Inr (), logger Info (check_mark @ '' Admin configured: '' @ template adminEmail) [] w)
      else (Inr (), logger Warn
        (warning_sign @ '' Admin credentials not configured - check ADMIN_EMAIL and ADMIN_PASSWORD'')
        [] w))"

subsection \<open>seedDefaultAIConfigs\<close>

definition text_config :: ai_config where
  "text_config =
     \<lparr>modality = ''text'', provider = ''openrouter'', model = ''anthropic/claude-3.5-haiku'',
      systemPrompt = Some ''You are a helpful assistant.''\<rparr>"

definition image_config :: ai_config where
  "image_config =
     \<lparr>modality = ''image'', provider = ''openrouter'',
      model = ''google/gemini-2.5-flash-image-preview'', systemPrompt = None\<rparr>"

definition seedDefaultAIConfigs :: "'x services \<Rightarrow> (unit, 'x) action" where
  "seedDefaultAIConfigs sv w =
     (if \<not> isCloudEnvironment sv (outside w) then (Inr (), w)
      else
        await (invoke NewAIConfigService (newAIConfigService sv) w) (\<lambda>aiConfigService w.
        await (invoke FindAll (findAll sv) w) (\<lambda>existingConfigs w.
          if length existingConfigs > 0 then (Inr (), w)
          else
            await (invoke (Create text_config) (create sv text_config) w) (\<lambda>_ w.
            await (invoke (Create image_config) (create sv image_config) w) (\<lambda>_ w.
              (Inr (), logger Info
                 (check_mark @ '' Default AI models configured (cloud environment)'') [] w))))))"

subsection \<open>seedBackend\<close>

definition setup_complete :: string where
  "setup_complete =
     ''Setup complete:'' @ [CHR 0x0A] @
     ''      - Save this API key for your apps!'' @ [CHR 0x0A] @
     ''      - Dashboard: http://localhost:7131'' @ [CHR 0x0A] @
     ''      - API: http://localhost:7130/api'' @ [CHR 0x0A] @
     ''    ''"

text \<open>The body of the \<^verbatim>\<open>try\<close> block (lines 66 to 96).\<close>

definition seedBackend_try :: "'x services \<Rightarrow> string \<Rightarrow> string \<Rightarrow> (unit, 'x) action" where
  "seedBackend_try sv adminEmail adminPassword w =
     (let w = logger Info ([CHR 0x0A] @ rocket @ '' Insforge Backend Starting...'') [] w in
      await (ensureFirstAdmin (Some adminEmail) (Some adminPassword) w) (\<lambda>_ w.
      await (invoke InitializeApiKey (initializeApiKey sv) w) (\<lambda>apiKey w.
      await (invoke GetUserTableCount (getUserTableCount sv) w) (\<lambda>tableCount w.
        let w = logger Info (check_mark @ '' Database connected to PostgreSQL'')
                  [(''host'', or_default (process_env sv (outside w) ''POSTGRES_HOST'') ''localhost''),
                   (''port'', or_default (process_env sv (outside w) ''POSTGRES_PORT'') ''5432''),
                   (''database'', or_default (process_env sv (outside w) ''POSTGRES_DB'') ''insforge'')]
                  w;
            w = (if greater_than_zero tableCount
                 then logger Info
                   (check_mark @ '' Found '' @ in_template tableCount @ '' user tables'') [] w
                 else w)
        in
        await (seedDefaultAIConfigs sv w) (\<lambda>_ w.
          let w = logger Info (''API key generated: '' @ apiKey) [] w;
              w = logger Info setup_complete [] w
          in (Inr (), w))))))"

text \<open>
  The \<^verbatim>\<open>catch\<close> block (lines 97 to 101). The argument of \<^verbatim>\<open>logger.error\<close> is evaluated
  before the call: when rendering the caught value throws, nothing is logged and that
  throw leaves the block.
\<close>

definition seedBackend_catch :: "thrown \<Rightarrow> (unit, 'x) action" where
  "seedBackend_catch error w =
     (case error_text error of
        Inl t \<Rightarrow> (Inl t, w)
      | Inr text \<Rightarrow> (Inr (), logger Error ''Error during setup'' [(''error'', text)] w))"

text \<open>The whole function: the two singleton accessors and the two reads of the
  environment come before the \<^verbatim>\<open>try\<close>.\<close>

definition seedBackend :: "'x services \<Rightarrow> (unit, 'x) action" where
  "seedBackend sv w =
     await (invoke GetAuthInstance (AuthService_getInstance sv) w) (\<lambda>authService w.
     await (invoke GetDbInstance (DatabaseManager_getInstance sv) w) (\<lambda>dbManager w.
       let adminEmail = or_default (process_env sv (outside w) ''ADMIN_EMAIL'') ''admin@example.com'';
           adminPassword = or_default (process_env sv (outside w) ''ADMIN_PASSWORD'') ''change-this-password''
       in
       (case seedBackend_try sv adminEmail adminPassword w of
          (Inr _, w) \<Rightarrow> (Inr (), w)
        | (Inl error, w) \<Rightarrow> seedBackend_catch error w)))"

subsection \<open>A backend for concrete runs\<close>

text \<open>
  A concrete outside state: the deployment mode, the stored AI configurations and the
  environment variables, in the order they were set.
\<close>

record backend =
  cloud :: bool
  configs :: "ai_config list"
  environ :: "(string \<times> string) list"

text \<open>
  Modelled from the spec: the class \<open>AIConfigService\<close> of \<^verbatim>\<open>@/core/ai/config.js\<close> is
  missing; the spec gives \<open>findAll()\<close> as returning all stored configurations (possibly
  none) and \<open>create(modality, provider, model, systemPrompt?)\<close> as persisting one new
  record.
\<close>

definition AIConfigService_findAll :: "(ai_config list, backend) ext" where
  "AIConfigService_findAll x = (Inr (configs x), x)"

text \<open>Modelled from the spec: \<open>create\<close> of the same missing class persists one new
  record; the records are kept in the order of their creation.\<close>

definition AIConfigService_create :: "ai_config \<Rightarrow> (unit, backend) ext" where
  "AIConfigService_create c x = (Inr (), x\<lparr>configs := configs x @ [c]\<rparr>)"

text \<open>The \<open>number\<close> that holds a count of tables, for a count below \<open>2^53\<close>.\<close>

definition table_count :: "int \<Rightarrow> js_number" where
  "table_count n = \<lparr>greater_than_zero = 0 < n, in_template = show_int n\<rparr>"

text \<open>Collaborators that all return: the API key and the table count are given, the
  store is the one above, and the classifier reads the deployment mode.\<close>

definition backend_services :: "string \<Rightarrow> int \<Rightarrow> backend services" where
  "backend_services apiKey tableCount =
     \<lparr>AuthService_getInstance = (\<lambda>x. (Inr (), x)),
      DatabaseManager_getInstance = (\<lambda>x. (Inr (), x)),
      initializeApiKey = (\<lambda>x. (Inr apiKey, x)),
      getUserTableCount = (\<lambda>x. (Inr (table_count tableCount), x)),
      newAIConfigService = (\<lambda>x. (Inr (), x)),
      findAll = AIConfigService_findAll,
      create = AIConfigService_create,
      process_env = (\<lambda>x. map_of (environ x)),
      isCloudEnvironment = cloud\<rparr>"

definition local_backend :: backend where
  "local_backend = \<lparr>cloud = False, configs = [], environ = []\<rparr>"

definition cloud_backend :: backend where
  "cloud_backend = \<lparr>cloud = True, configs = [], environ = []\<rparr>"

subsection \<open>Observations on a run\<close>

text \<open>The events a run added, given the state before and the state after.\<close>

definition emitted :: "'x world \<Rightarrow> 'x world \<Rightarrow> event list" where
  "emitted w w' = drop (length (events w)) (events w')"

fun level_of :: "event \<Rightarrow> level option" where
  "level_of (Logged l msg m) = Some l"
| "level_of (Called c) = None"

definition logs_at :: "level \<Rightarrow> event list \<Rightarrow> event list" where
  "logs_at l evs = filter (\<lambda>e. level_of e = Some l) evs"

fun is_logged :: "event \<Rightarrow> bool" where
  "is_logged (Logged l msg m) = True"
| "is_logged (Called c) = False"

fun calls_of :: "event list \<Rightarrow> call list" where
  "calls_of [] = []"
| "calls_of (Called c # evs) = c # calls_of evs"
| "calls_of (Logged l msg m # evs) = calls_of evs"

text \<open>An event that is neither a warning nor an error line.\<close>

definition quiet :: "event \<Rightarrow> bool" where
  "quiet e = (level_of e \<noteq> Some Warn \<and> level_of e \<noteq> Some Error)"

text \<open>The first two lines of the \<^verbatim>\<open>try\<close> block.\<close>

definition start_event :: event where
  "start_event = Logged Info ([CHR 0x0A] @ rocket @ '' Insforge Backend Starting...'') []"

definition admin_event :: "string \<Rightarrow> string \<Rightarrow> event" where
  "admin_event em pw =
     (if em \<noteq> [] \<and> pw \<noteq> []
      then Logged Info (check_mark @ '' Admin configured: '' @ em) []
      else Logged Warn (warning_sign @
        '' Admin credentials not configured - check ADMIN_EMAIL and ADMIN_PASSWORD'') [])"

text \<open>
  The step of the orchestrator's sequence an event belongs to, numbered as in the
  spec's section 4.1: 2 the credential check, 3 the API-key initialization, 4 the
  table-count query, 5 the connectivity summary, 6 the table-count line, 7 the AI
  configuration seeder, 8 the API-key and setup-complete lines; 0 is what comes before
  (the singleton accessors and the starting line) and 9 the error line of the
  \<^verbatim>\<open>catch\<close> block. A log line is recognised by its level and its fixed beginning.
\<close>

definition step_of_message :: "level \<Rightarrow> string \<Rightarrow> nat" where
  "step_of_message l msg =
     (if l = Error then 9
      else if prefix (check_mark @ '' Admin configured: '') msg \<or>
              prefix (warning_sign @ '' Admin credentials not configured'') msg then 2
      else if prefix (check_mark @ '' Database connected'') msg then 5
      else if prefix (check_mark @ '' Found '') msg then 6
      else if prefix (check_mark @ '' Default AI models configured'') msg then 7
      else if prefix ''API key generated: '' msg \<or> prefix ''Setup complete:'' msg then 8
      else 0)"

fun step_of_call :: "call \<Rightarrow> nat" where
  "step_of_call GetAuthInstance = 0"
| "step_of_call GetDbInstance = 0"
| "step_of_call InitializeApiKey = 3"
| "step_of_call GetUserTableCount = 4"
| "step_of_call NewAIConfigService = 7"
| "step_of_call FindAll = 7"
| "step_of_call (Create c) = 7"

fun step_of :: "event \<Rightarrow> nat" where
  "step_of (Logged l msg m) = step_of_message l msg"
| "step_of (Called c) = step_of_call c"

text \<open>
  The first exception a collaborator throws inside the startup sequence, with the
  outside state that call leaves; \<open>None\<close> when every call returns. The calls are those
  of the spec's steps 3, 4 and 7, in that order, from the outside state in which the
  \<^verbatim>\<open>try\<close> block starts: the API-key initialization, the table-count query and, in
  cloud mode, the seeder's calls (the construction of the store service, \<open>findAll\<close>,
  and on an empty result the creation of the text record, then of the image record).
\<close>

definition service_failure :: "'x services \<Rightarrow> 'x \<Rightarrow> (thrown \<times> 'x) option" where
  "service_failure sv x =
     (case initializeApiKey sv x of
        (Inl e, x) \<Rightarrow> Some (e, x)
      | (Inr _, x) \<Rightarrow>
     (case getUserTableCount sv x of
        (Inl e, x) \<Rightarrow> Some (e, x)
      | (Inr _, x) \<Rightarrow>
     if \<not> isCloudEnvironment sv x then None
     else
     (case newAIConfigService sv x of
        (Inl e, x) \<Rightarrow> Some (e, x)
      | (Inr _, x) \<Rightarrow>
     (case findAll sv x of
        (Inl e, x) \<Rightarrow> Some (e, x)
      | (Inr existing, x) \<Rightarrow>
     if existing \<noteq> [] then None
     else
     (case create sv text_config x of
        (Inl e, x) \<Rightarrow> Some (e, x)
      | (Inr _, x) \<Rightarrow>
     (case create sv image_config x of
        (Inl e, x) \<Rightarrow> Some (e, x)
      | (Inr _, x) \<Rightarrow> None))))))"

text \<open>A thrown value that the catch block can turn into text.\<close>

fun renderable :: "thrown \<Rightarrow> bool" where
  "renderable (JsError message) = True"
| "renderable (JsOther s) = True"
| "renderable (JsUnrenderable t) = False"

text \<open>No collaborator throws, inside the startup sequence, a value that cannot be
  rendered.\<close>

definition failure_renderable :: "'x services \<Rightarrow> 'x \<Rightarrow> bool" where
  "failure_renderable sv x =
     (case service_failure sv x of None \<Rightarrow> True | Some (e, x') \<Rightarrow> renderable e)"

text \<open>Whether a log line carries a given text, in its message or in a value of its
  metadata.\<close>

fun mentions :: "string \<Rightarrow> event \<Rightarrow> bool" where
  "mentions s (Logged l msg m) = (sublist s msg \<or> list_ex (\<lambda>kv. sublist s (snd kv)) m)"
| "mentions s (Called c) = False"

section \<open>Auxiliary facts\<close>

lemma emitted_append [simp]: "emitted w (w\<lparr>events := events w @ new\<rparr>) = new"
  by (simp add: emitted_def)

lemma emitted_append' [simp]: "emitted w \<lparr>events = events w @ new, outside = x\<rparr> = new"
  by (simp add: emitted_def)

lemma step_start: "step_of_message Info ([CHR 0x0A] @ rocket @ '' Insforge Backend Starting...'') = 0"
  by (simp add: step_of_message_def check_mark_def warning_sign_def rocket_def)

lemma step_admin_info: "step_of_message Info (check_mark @ '' Admin configured: '' @ s) = 2"
  by (simp add: step_of_message_def)

lemma step_admin_warn: "step_of_message Warn (warning_sign @
    '' Admin credentials not configured - check ADMIN_EMAIL and ADMIN_PASSWORD'') = 2"
  by (simp add: step_of_message_def)

lemma step_database: "step_of_message Info (check_mark @ '' Database connected to PostgreSQL'') = 5"
  by (simp add: step_of_message_def check_mark_def warning_sign_def)

lemma step_found: "step_of_message Info (check_mark @ '' Found '' @ s) = 6"
  by (simp add: step_of_message_def check_mark_def warning_sign_def)

lemma step_default_models:
  "step_of_message Info (check_mark @ '' Default AI models configured (cloud environment)'') = 7"
  by (simp add: step_of_message_def check_mark_def warning_sign_def)

lemma step_api_key: "step_of_message Info (''API key generated: '' @ s) = 8"
  by (simp add: step_of_message_def check_mark_def warning_sign_def)

lemma step_setup_complete: "step_of_message Info setup_complete = 8"
  by (simp add: step_of_message_def check_mark_def warning_sign_def setup_complete_def)

lemma step_error: "step_of_message Error msg = 9"
  by (simp add: step_of_message_def)

lemmas step_simps = step_start step_admin_info step_admin_warn step_database step_found
  step_default_models step_api_key step_setup_complete step_error

lemmas step_norm = step_simps [simplified]

lemma seedDefaultAIConfigs_steps:
  "\<exists>new. events (snd (seedDefaultAIConfigs sv w)) = events w @ new \<and>
     list_all (\<lambda>e. step_of e = 7) new \<and> list_all quiet new"
  by (auto simp: seedDefaultAIConfigs_def await_def invoke_def logger_def step_norm quiet_def
      split: prod.splits sum.splits)

lemma map_const_replicate: "list_all (\<lambda>e. f e = c) xs \<Longrightarrow> map f xs = replicate (length xs) c"
  by (induction xs) simp_all

lemma seedDefaultAIConfigs_grows:
  assumes "seedDefaultAIConfigs sv w = (r, w')"
  obtains new where "events w' = events w @ new"
    and "map step_of new = replicate (length new) 7" and "list_all quiet new"
proof -
  from seedDefaultAIConfigs_steps [of sv w] assms
  obtain new where "events w' = events w @ new" and "list_all (\<lambda>e. step_of e = 7) new"
    and "list_all quiet new"
    by auto
  then show thesis
    by (intro that [of new]) (simp_all add: map_const_replicate)
qed

lemma await_Inl: "await (Inl e, w) k = (Inl e, w)"
  by (simp add: await_def)

lemma await_Inr: "await (Inr v, w) k = k v w"
  by (simp add: await_def)

lemma logger_eq: "logger l msg m w = \<lparr>events = events w @ [Logged l msg m], outside = outside w\<rparr>"
  by (simp add: logger_def)

lemma map_replicate_all: "map f xs = replicate n c \<Longrightarrow> x \<in> set xs \<Longrightarrow> f x = (c::nat)"
  by (metis image_eqI in_set_replicate set_map)

lemma step_of_start_event: "step_of start_event = 0"
  unfolding start_event_def by (simp only: step_of.simps step_start)

lemma step_of_admin_event: "step_of (admin_event em pw) = 2"
  by (simp add: admin_event_def step_norm)

lemma quiet_Called: "quiet (Called c)"
  by (simp add: quiet_def)

lemma quiet_Info: "quiet (Logged Info msg m)"
  by (simp add: quiet_def)

lemma ensureFirstAdmin_admin_event:
  "ensureFirstAdmin (Some em) (Some pw) w =
     (Inr (), \<lparr>events = events w @ [admin_event em pw], outside = outside w\<rparr>)"
  by (simp add: ensureFirstAdmin_def admin_event_def logger_eq)

lemma seedBackend_try_trace:
  "\<exists>rest. events (snd (seedBackend_try sv em pw w)) =
       events w @ start_event # admin_event em pw # rest \<and>
     sorted (map step_of rest) \<and> list_all (\<lambda>s. 3 \<le> s \<and> s \<le> 8) (map step_of rest) \<and>
     list_all quiet rest \<and>
     (fst (seedBackend_try sv em pw w) = Inr () \<longrightarrow>
        (\<exists>a b. map step_of rest = 3 # 4 # 5 # replicate a 6 @ replicate b 7 @ [8, 8]))"
proof -
  have a: "ensureFirstAdmin (Some em) (Some pw)
      (logger Info ([CHR 0x0A] @ rocket @ '' Insforge Backend Starting...'') [] w) =
      (Inr (), \<lparr>events = events w @ [start_event, admin_event em pw], outside = outside w\<rparr>)"
    by (simp add: ensureFirstAdmin_admin_event logger_eq start_event_def)
  obtain r1 x1 where c1: "initializeApiKey sv (outside w) = (r1, x1)" by force
  show ?thesis
  proof (cases r1)
    case (Inl e)
    have "seedBackend_try sv em pw w =
        (Inl e, \<lparr>events = events w @ [start_event, admin_event em pw, Called InitializeApiKey],
           outside = x1\<rparr>)"
      using c1 Inl unfolding seedBackend_try_def Let_def a await_Inr
      by (simp add: invoke_def await_Inl)
    then show ?thesis by (simp add: quiet_Called)
  next
    case (Inr apiKey)
    obtain r2 x2 where c2: "getUserTableCount sv x1 = (r2, x2)" by force
    show ?thesis
    proof (cases r2)
      case (Inl e)
      have "seedBackend_try sv em pw w =
        (Inl e, \<lparr>events = events w @
            [start_event, admin_event em pw, Called InitializeApiKey, Called GetUserTableCount],
           outside = x2\<rparr>)"
        using c1 c2 Inl \<open>r1 = Inr apiKey\<close> unfolding seedBackend_try_def Let_def a await_Inr
        by (simp add: invoke_def await_Inl await_Inr)
      then show ?thesis by (simp add: quiet_Called)
    next
      case (Inr tableCount)
      define db where "db = Logged Info (check_mark @ '' Database connected to PostgreSQL'')
                  [(''host'', or_default (process_env sv x2 ''POSTGRES_HOST'') ''localhost''),
                   (''port'', or_default (process_env sv x2 ''POSTGRES_PORT'') ''5432''),
                   (''database'', or_default (process_env sv x2 ''POSTGRES_DB'') ''insforge'')]"
      define found where "found =
        (if greater_than_zero tableCount
         then [Logged Info (check_mark @ '' Found '' @ in_template tableCount @ '' user tables'') []]
         else [])"
      define w3 where "w3 = \<lparr>events = events w @
          [start_event, admin_event em pw, Called InitializeApiKey, Called GetUserTableCount, db] @ found,
          outside = x2\<rparr>"
      have db: "step_of db = 5" "quiet db"
        unfolding db_def by (simp_all only: step_of.simps step_database quiet_Info)
      have "step_of (Logged Info
          (check_mark @ '' Found '' @ in_template tableCount @ '' user tables'') []) = 6"
        by (simp only: step_of.simps step_found)
      then have found: "map step_of found = replicate (length found) 6" "list_all quiet found"
        by (simp_all add: found_def quiet_Info)
      obtain r4 w4 where c4: "seedDefaultAIConfigs sv w3 = (r4, w4)" by force
      then obtain new4 where w4: "events w4 = events w3 @ new4"
        and s4: "map step_of new4 = replicate (length new4) 7" and q4: "list_all quiet new4"
        by (rule seedDefaultAIConfigs_grows)
      have run: "seedBackend_try sv em pw w =
        await (r4, w4) (\<lambda>_ w.
          let w = logger Info (''API key generated: '' @ apiKey) [] w;
              w = logger Info setup_complete [] w
          in (Inr (), w))"
        using c1 c2 \<open>r1 = Inr apiKey\<close> \<open>r2 = Inr tableCount\<close> c4
        unfolding seedBackend_try_def Let_def a await_Inr
        by (cases "greater_than_zero tableCount")
           (simp_all add: invoke_def await_Inr logger_eq w3_def found_def db_def)
      define final where "final =
        [Logged Info (''API key generated: '' @ apiKey) [], Logged Info setup_complete []]"
      have "step_of (Logged Info (''API key generated: '' @ apiKey) []) = 8"
        and "step_of (Logged Info setup_complete []) = 8"
        by (simp_all only: step_of.simps step_api_key step_setup_complete)
      then have final: "map step_of final = [8, 8]" "list_all quiet final"
        by (simp_all add: final_def quiet_Info)
      show ?thesis
      proof (cases r4)
        case (Inl e)
        then have "seedBackend_try sv em pw w = (Inl e, w4)"
          by (simp add: run await_Inl)
        then show ?thesis
          using w4 s4 q4 found map_replicate_all [OF s4] map_replicate_all [OF found(1)]
          by (simp add: w3_def db sorted_append list_all_iff quiet_Called) auto
      next
        case (Inr u)
        then have "seedBackend_try sv em pw w =
            (Inr (), \<lparr>events = events w4 @ final, outside = outside w4\<rparr>)"
          by (simp add: run await_Inr logger_eq final_def)
        then show ?thesis
          using w4 s4 q4 found final map_replicate_all [OF s4] map_replicate_all [OF found(1)]
          by (simp add: w3_def db sorted_append list_all_iff quiet_Called) auto
      qed
    qed
  qed
qed

lemma or_default_nonempty: "d \<noteq> [] \<Longrightarrow> or_default v d \<noteq> []"
  by (cases v) simp_all

lemma seedBackend_acquired:
  assumes "AuthService_getInstance sv (outside w) = (Inr (), x1)"
    and "DatabaseManager_getInstance sv x1 = (Inr (), x2)"
  shows "seedBackend sv w =
     (case seedBackend_try sv
        (or_default (process_env sv x2 ''ADMIN_EMAIL'') ''admin@example.com'')
        (or_default (process_env sv x2 ''ADMIN_PASSWORD'') ''change-this-password'')
        \<lparr>events = events w @ [Called GetAuthInstance, Called GetDbInstance], outside = x2\<rparr> of
        (Inr _, w') \<Rightarrow> (Inr (), w')
      | (Inl error, w') \<Rightarrow> seedBackend_catch error w')"
  using assms by (simp add: seedBackend_def invoke_def await_Inr Let_def)

lemma logs_at_append: "logs_at l (xs @ ys) = logs_at l xs @ logs_at l ys"
  by (simp add: logs_at_def)

lemma logs_at_Called: "logs_at l (Called c # evs) = logs_at l evs"
  by (simp add: logs_at_def)

lemma logs_at_Error: "logs_at Error [Logged Error msg m] = [Logged Error msg m]"
  by (simp add: logs_at_def)

lemma logs_at_quiet: "list_all quiet evs \<Longrightarrow> logs_at Error evs = [] \<and> logs_at Warn evs = []"
  by (auto simp: logs_at_def quiet_def list_all_iff filter_empty_conv)

lemma seedBackend_try_no_error:
  "\<exists>new. events (snd (seedBackend_try sv em pw w)) = events w @ new \<and> logs_at Error new = []"
proof -
  from seedBackend_try_trace [of sv em pw w]
  obtain rest where ev: "events (snd (seedBackend_try sv em pw w)) =
       events w @ start_event # admin_event em pw # rest"
    and q: "list_all quiet rest"
    by auto
  have "logs_at Error [start_event, admin_event em pw] = []"
    by (simp add: logs_at_def start_event_def admin_event_def)
  with logs_at_quiet [OF q] have "logs_at Error ([start_event, admin_event em pw] @ rest) = []"
    by (simp only: logs_at_append) simp
  with ev show ?thesis by auto
qed

lemma calls_of_append: "calls_of (xs @ ys) = calls_of xs @ calls_of ys"
  by (induction xs rule: calls_of.induct) simp_all

lemma calls_of_logged: "is_logged e \<Longrightarrow> calls_of (e # evs) = calls_of evs"
  by (cases e) simp_all

lemma logs_at_other: "level_of e \<noteq> Some l \<Longrightarrow> logs_at l (e # evs) = logs_at l evs"
  by (simp add: logs_at_def)

lemma admin_event_logged: "is_logged (admin_event em pw)" "level_of (admin_event em pw) \<noteq> Some Error"
  by (simp_all add: admin_event_def)

lemma start_event_logged: "is_logged start_event" "level_of start_event = Some Info"
  by (simp_all add: start_event_def)

lemma seedDefaultAIConfigs_failure:
  "fst (seedDefaultAIConfigs sv w) =
     (if \<not> isCloudEnvironment sv (outside w) then Inr ()
      else case newAIConfigService sv (outside w) of
        (Inl e, x) \<Rightarrow> Inl e
      | (Inr _, x) \<Rightarrow>
     (case findAll sv x of
        (Inl e, x) \<Rightarrow> Inl e
      | (Inr existing, x) \<Rightarrow>
     if existing \<noteq> [] then Inr ()
     else
     (case create sv text_config x of
        (Inl e, x) \<Rightarrow> Inl e
      | (Inr _, x) \<Rightarrow>
     (case create sv image_config x of
        (Inl e, x) \<Rightarrow> Inl e
      | (Inr _, x) \<Rightarrow> Inr ()))))"
  by (simp add: seedDefaultAIConfigs_def await_def invoke_def logger_def
      split: prod.splits sum.splits)

lemma seedDefaultAIConfigs_outside:
  "outside (snd (seedDefaultAIConfigs sv w)) =
     (if \<not> isCloudEnvironment sv (outside w) then outside w
      else case newAIConfigService sv (outside w) of
        (Inl e, x) \<Rightarrow> x
      | (Inr _, x) \<Rightarrow>
     (case findAll sv x of
        (Inl e, x) \<Rightarrow> x
      | (Inr existing, x) \<Rightarrow>
     if existing \<noteq> [] then x
     else
     (case create sv text_config x of
        (Inl e, x) \<Rightarrow> x
      | (Inr _, x) \<Rightarrow>
     (case create sv image_config x of
        (Inl e, x) \<Rightarrow> x
      | (Inr _, x) \<Rightarrow> x))))"
  by (simp add: seedDefaultAIConfigs_def await_def invoke_def logger_def
      split: prod.splits sum.splits)

lemma seedBackend_try_failure:
  "(service_failure sv (outside w) = None \<longrightarrow> fst (seedBackend_try sv em pw w) = Inr ()) \<and>
   (\<forall>e x. service_failure sv (outside w) = Some (e, x) \<longrightarrow>
      fst (seedBackend_try sv em pw w) = Inl e \<and> outside (snd (seedBackend_try sv em pw w)) = x)"
proof -
  obtain r1 x1 where c1: "initializeApiKey sv (outside w) = (r1, x1)" by force
  obtain r2 x2 where c2: "getUserTableCount sv x1 = (r2, x2)" by force
  show ?thesis
  proof (cases r1)
    case (Inl e)
    with c1 show ?thesis
      by (simp add: seedBackend_try_def ensureFirstAdmin_admin_event logger_eq await_def invoke_def
          service_failure_def)
  next
    case key: (Inr apiKey)
    show ?thesis
    proof (cases r2)
      case (Inl e)
      with c1 c2 key show ?thesis
        by (simp add: seedBackend_try_def ensureFirstAdmin_admin_event logger_eq await_def invoke_def
            service_failure_def)
    next
      case (Inr tableCount)
      define w3 where "w3 =
        (let w = logger Info (check_mark @ '' Database connected to PostgreSQL'')
                  [(''host'', or_default (process_env sv x2 ''POSTGRES_HOST'') ''localhost''),
                   (''port'', or_default (process_env sv x2 ''POSTGRES_PORT'') ''5432''),
                   (''database'', or_default (process_env sv x2 ''POSTGRES_DB'') ''insforge'')]
                  \<lparr>events = events w @ [start_event, admin_event em pw,
                      Called InitializeApiKey, Called GetUserTableCount], outside = x2\<rparr>
         in if greater_than_zero tableCount
            then logger Info
              (check_mark @ '' Found '' @ in_template tableCount @ '' user tables'') [] w
            else w)"
      have o3: "outside w3 = x2"
        by (simp add: w3_def logger_eq Let_def)
      have run: "seedBackend_try sv em pw w =
        await (seedDefaultAIConfigs sv w3) (\<lambda>_ w.
          let w = logger Info (''API key generated: '' @ apiKey) [] w;
              w = logger Info setup_complete [] w
          in (Inr (), w))"
        using c1 c2 key Inr
        by (simp add: seedBackend_try_def ensureFirstAdmin_admin_event logger_eq await_Inr
            invoke_def w3_def start_event_def Let_def)
      have fst_run: "fst (seedBackend_try sv em pw w) = fst (seedDefaultAIConfigs sv w3)"
        unfolding run by (simp add: await_def Let_def split: prod.splits sum.splits)
      have snd_run: "fst (seedDefaultAIConfigs sv w3) = Inl e \<Longrightarrow>
          snd (seedBackend_try sv em pw w) = snd (seedDefaultAIConfigs sv w3)" for e
        unfolding run by (cases "seedDefaultAIConfigs sv w3") (simp add: await_Inl)
      have sf: "service_failure sv (outside w) =
         (if \<not> isCloudEnvironment sv x2 then None
          else case newAIConfigService sv x2 of
            (Inl e, x) \<Rightarrow> Some (e, x)
          | (Inr _, x) \<Rightarrow>
         (case findAll sv x of
            (Inl e, x) \<Rightarrow> Some (e, x)
          | (Inr existing, x) \<Rightarrow>
         if existing \<noteq> [] then None
         else
         (case create sv text_config x of
            (Inl e, x) \<Rightarrow> Some (e, x)
          | (Inr _, x) \<Rightarrow>
         (case create sv image_config x of
            (Inl e, x) \<Rightarrow> Some (e, x)
          | (Inr _, x) \<Rightarrow> None))))"
        using c1 c2 key Inr by (simp add: service_failure_def)
      have none: "service_failure sv (outside w) = None \<Longrightarrow> fst (seedDefaultAIConfigs sv w3) = Inr ()"
        unfolding sf seedDefaultAIConfigs_failure o3
        by (simp split: prod.splits sum.splits if_splits)
      have some: "service_failure sv (outside w) = Some (e, x) \<Longrightarrow>
          fst (seedDefaultAIConfigs sv w3) = Inl e \<and> outside (snd (seedDefaultAIConfigs sv w3)) = x"
        for e x
        unfolding sf seedDefaultAIConfigs_failure seedDefaultAIConfigs_outside o3
        by (simp split: prod.splits sum.splits if_splits)
      show ?thesis
        using none some snd_run by (auto simp: fst_run)
    qed
  qed
qed

lemmas seedBackend_try_returns = seedBackend_try_failure [THEN conjunct1, rule_format]

lemmas seedBackend_try_throws = seedBackend_try_failure [THEN conjunct2, rule_format]

lemma seedBackend_try_password:
  "pw \<noteq> [] \<Longrightarrow> pw' \<noteq> [] \<Longrightarrow> seedBackend_try sv em pw w = seedBackend_try sv em pw' w"
  by (simp add: seedBackend_try_def ensureFirstAdmin_def)

lemma renderable_text: "renderable e \<Longrightarrow> \<exists>text. error_text e = Inr text"
  by (cases e) simp_all

lemma seedBackend_events:
  assumes "AuthService_getInstance sv (outside w) = (Inr (), x1)"
    and "DatabaseManager_getInstance sv x1 = (Inr (), x2)"
  defines "em \<equiv> or_default (process_env sv x2 ''ADMIN_EMAIL'') ''admin@example.com''"
    and "pw \<equiv> or_default (process_env sv x2 ''ADMIN_PASSWORD'') ''change-this-password''"
    and "w2 \<equiv> \<lparr>events = events w @ [Called GetAuthInstance, Called GetDbInstance], outside = x2\<rparr>"
  shows "\<exists>rest tail.
     emitted w (snd (seedBackend sv w)) =
       Called GetAuthInstance # Called GetDbInstance # start_event # admin_event em pw # rest @ tail \<and>
     sorted (map step_of rest) \<and> list_all (\<lambda>s. 3 \<le> s \<and> s \<le> 8) (map step_of rest) \<and>
     list_all quiet rest \<and>
     outside (snd (seedBackend sv w)) = outside (snd (seedBackend_try sv em pw w2)) \<and>
     (case fst (seedBackend_try sv em pw w2) of
        Inl error \<Rightarrow>
          (case error_text error of
             Inr msg \<Rightarrow>
               tail = [Logged Error ''Error during setup'' [(''error'', msg)]] \<and>
               fst (seedBackend sv w) = Inr ()
           | Inl t \<Rightarrow> tail = [] \<and> fst (seedBackend sv w) = Inl t)
      | Inr _ \<Rightarrow> tail = [] \<and> fst (seedBackend sv w) = Inr () \<and>
          (\<exists>a b. map step_of rest = 3 # 4 # 5 # replicate a 6 @ replicate b 7 @ [8, 8]))"
proof -
  obtain r w' where body: "seedBackend_try sv em pw w2 = (r, w')" by force
  from seedBackend_try_trace [of sv em pw w2]
  obtain rest where ev': "events (snd (seedBackend_try sv em pw w2)) =
        events w2 @ start_event # admin_event em pw # rest"
    and rest: "sorted (map step_of rest)" "list_all (\<lambda>s. 3 \<le> s \<and> s \<le> 8) (map step_of rest)"
      "list_all quiet rest"
    and shape': "fst (seedBackend_try sv em pw w2) = Inr () \<longrightarrow>
        (\<exists>a b. map step_of rest = 3 # 4 # 5 # replicate a 6 @ replicate b 7 @ [8, 8])"
    by (elim exE conjE) (rule that, assumption+)
  have ev: "events w' = events w2 @ start_event # admin_event em pw # rest"
    using ev' by (simp add: body)
  have shape: "r = Inr () \<longrightarrow>
        (\<exists>a b. map step_of rest = 3 # 4 # 5 # replicate a 6 @ replicate b 7 @ [8, 8])"
    using shape' by (simp add: body)
  have run: "seedBackend sv w =
     (case r of Inr _ \<Rightarrow> (Inr (), w') | Inl error \<Rightarrow> seedBackend_catch error w')"
    using body by (simp add: seedBackend_acquired [OF assms(1,2)] em_def pw_def w2_def split: sum.splits)
  show ?thesis
  proof (cases r)
    case (Inl error)
    show ?thesis
    proof (cases "error_text error")
      case unrenderable: (Inl t)
      have "seedBackend sv w = (Inl t, w')"
        using Inl unrenderable by (simp add: run seedBackend_catch_def)
      then have "emitted w (snd (seedBackend sv w)) =
          Called GetAuthInstance # Called GetDbInstance # start_event # admin_event em pw # rest @ []"
        and "fst (seedBackend sv w) = Inl t" and "outside (snd (seedBackend sv w)) = outside w'"
        by (simp_all add: ev w2_def emitted_def)
      with rest Inl unrenderable body show ?thesis by (simp del: append_Nil2)
    next
      case rendered: (Inr msg)
      have "seedBackend sv w =
          (Inr (), logger Error ''Error during setup'' [(''error'', msg)] w')"
        using Inl rendered by (simp add: run seedBackend_catch_def)
      then have "emitted w (snd (seedBackend sv w)) =
          Called GetAuthInstance # Called GetDbInstance # start_event # admin_event em pw # rest @
          [Logged Error ''Error during setup'' [(''error'', msg)]]"
        and "fst (seedBackend sv w) = Inr ()" and "outside (snd (seedBackend sv w)) = outside w'"
        by (simp_all add: logger_eq ev w2_def emitted_def)
      with rest Inl rendered body show ?thesis by simp
    qed
  next
    case (Inr u)
    then have "emitted w (snd (seedBackend sv w)) =
        Called GetAuthInstance # Called GetDbInstance # start_event # admin_event em pw # rest @ []"
      and "fst (seedBackend sv w) = Inr ()" and "outside (snd (seedBackend sv w)) = outside w'"
      by (simp_all add: run ev w2_def emitted_def)
    with rest Inr body shape show ?thesis by (simp del: append_Nil2)
  qed
qed

lemma sorted_map_less:
  fixes f :: "'a \<Rightarrow> nat"
  assumes "sorted (map f xs)" and "i < length xs" and "j < length xs" and "f (xs ! i) < f (xs ! j)"
  shows "i < j"
proof (rule ccontr)
  assume "\<not> i < j"
  then have "j \<le> i" by simp
  from sorted_nth_mono [OF assms(1) this] assms(2) have "map f xs ! j \<le> map f xs ! i"
    by simp
  with assms(2,3) have "f (xs ! j) \<le> f (xs ! i)"
    by simp
  with assms(4) show False by simp
qed

text \<open>A run of \<open>seedBackend\<close> only appends to the list of events, so \<open>emitted\<close> is
  the trace of the run itself.\<close>

lemma seedBackend_extends:
  "events (snd (seedBackend sv w)) = events w @ emitted w (snd (seedBackend sv w))"
proof -
  obtain r1 x1 where c1: "AuthService_getInstance sv (outside w) = (r1, x1)" by force
  obtain r2 x2 where c2: "DatabaseManager_getInstance sv x1 = (r2, x2)" by force
  show ?thesis
  proof (cases r1)
    case (Inl e)
    then have "seedBackend sv w = (Inl e, \<lparr>events = events w @ [Called GetAuthInstance], outside = x1\<rparr>)"
      using c1 by (simp add: seedBackend_def invoke_def await_Inl)
    then show ?thesis by simp
  next
    case auth: (Inr u)
    show ?thesis
    proof (cases r2)
      case (Inl e)
      then have "seedBackend sv w =
          (Inl e, \<lparr>events = events w @ [Called GetAuthInstance, Called GetDbInstance], outside = x2\<rparr>)"
        using c1 c2 auth by (simp add: seedBackend_def invoke_def await_Inl await_Inr)
      then show ?thesis by simp
    next
      case db: (Inr u')
      let ?em = "or_default (process_env sv x2 ''ADMIN_EMAIL'') ''admin@example.com''"
      let ?pw = "or_default (process_env sv x2 ''ADMIN_PASSWORD'') ''change-this-password''"
      let ?w2 = "\<lparr>events = events w @ [Called GetAuthInstance, Called GetDbInstance], outside = x2\<rparr>"
      from c1 c2 auth db have acq: "AuthService_getInstance sv (outside w) = (Inr (), x1)"
        "DatabaseManager_getInstance sv x1 = (Inr (), x2)"
        by simp_all
      obtain r w' where body: "seedBackend_try sv ?em ?pw ?w2 = (r, w')" by force
      from seedBackend_try_no_error [of sv ?em ?pw ?w2] body
      obtain new where ev: "events w' = events ?w2 @ new" by auto
      have "\<exists>new'. events (snd (seedBackend sv w)) = events w @ new'"
        using body ev
        by (cases r; cases "error_text (projl r)")
           (simp_all add: seedBackend_acquired [OF acq] seedBackend_catch_def logger_eq)
      then show ?thesis by (auto simp: emitted_def)
    qed
  qed
qed

section \<open>The claims\<close>

text \<open>
  Claim C7. For every pair of arguments, \<open>ensureFirstAdmin\<close> returns normally and leaves
  the outside state alone. When both arguments are non-empty strings it logs exactly one
  line, at level Info, which ends with the email, and no warning; when either is empty
  or \<^verbatim>\<open>undefined\<close> it logs exactly one line, the warning, and no Info line.
\<close>

theorem ensureFirstAdmin_presence:
  "fst (ensureFirstAdmin adminEmail adminPassword w) = Inr () \<and>
   outside (snd (ensureFirstAdmin adminEmail adminPassword w)) = outside w \<and>
   (let new = emitted w (snd (ensureFirstAdmin adminEmail adminPassword w)) in
     (truthy adminEmail \<and> truthy adminPassword \<longrightarrow>
        new = [Logged Info (check_mark @ '' Admin configured: '' @ template adminEmail) []] \<and>
        logs_at Warn new = []) \<and>
     (\<not> (truthy adminEmail \<and> truthy adminPassword) \<longrightarrow>
        new = [Logged Warn (warning_sign @
          '' Admin credentials not configured - check ADMIN_EMAIL and ADMIN_PASSWORD'') []] \<and>
        logs_at Info new = []))"
  by (cases adminEmail) (simp_all add: ensureFirstAdmin_def logger_def logs_at_def Let_def)

theorem ensureFirstAdmin_presence_witness:
  "truthy (Some ''root@insforge.dev'') \<and> truthy (Some ''s3cret'') \<and>
   emitted \<lparr>events = [], outside = ()\<rparr>
     (snd (ensureFirstAdmin (Some ''root@insforge.dev'') (Some ''s3cret'') \<lparr>events = [], outside = ()\<rparr>)) =
     [Logged Info (check_mark @ '' Admin configured: root@insforge.dev'') []] \<and>
   \<not> truthy (Some '''') \<and>
   emitted \<lparr>events = [], outside = ()\<rparr>
     (snd (ensureFirstAdmin (Some '''') None \<lparr>events = [], outside = ()\<rparr>)) =
     [Logged Warn (warning_sign @
        '' Admin credentials not configured - check ADMIN_EMAIL and ADMIN_PASSWORD'') []]"
  using ensureFirstAdmin_presence [of "Some ''root@insforge.dev''" "Some ''s3cret''" "\<lparr>events = [], outside = ()\<rparr>"]
    ensureFirstAdmin_presence [of "Some ''''" None "\<lparr>events = [], outside = ()\<rparr>"]
  by (simp add: Let_def)

text \<open>
  Claim C4. For every outside state (so for every content of the store), when the
  classifier reports non-cloud \<open>seedDefaultAIConfigs\<close> returns normally with the state
  it was given: no event is added (no call of the store's constructor, of \<open>findAll\<close>
  or of \<open>create\<close>, and no log line) and the outside state is unchanged.
\<close>

theorem seedDefaultAIConfigs_not_cloud:
  "\<not> isCloudEnvironment sv (outside w) \<Longrightarrow> seedDefaultAIConfigs sv w = (Inr (), w)"
  by (simp add: seedDefaultAIConfigs_def)

theorem seedDefaultAIConfigs_not_cloud_witness:
  "\<not> isCloudEnvironment (backend_services ''ik_1'' 3) (outside \<lparr>events = [], outside = local_backend\<rparr>) \<and>
   seedDefaultAIConfigs (backend_services ''ik_1'' 3) \<lparr>events = [], outside = local_backend\<rparr> =
     (Inr (), \<lparr>events = [], outside = local_backend\<rparr>)"
  using seedDefaultAIConfigs_not_cloud [of "backend_services ''ik_1'' 3" "\<lparr>events = [], outside = local_backend\<rparr>"]
  by (simp add: backend_services_def local_backend_def)

text \<open>
  Claim C5. In cloud mode, when \<open>findAll\<close> returns a non-empty collection,
  \<open>seedDefaultAIConfigs\<close> returns normally having added exactly two events, the
  construction of the service and the \<open>findAll\<close> call: no \<open>create\<close> call, and no
  "default models configured" line.
\<close>

theorem seedDefaultAIConfigs_existing_configs:
  assumes "isCloudEnvironment sv (outside w)"
    and "newAIConfigService sv (outside w) = (Inr (), x1)"
    and "findAll sv x1 = (Inr existingConfigs, x2)"
    and "existingConfigs \<noteq> []"
  shows "seedDefaultAIConfigs sv w =
     (Inr (), \<lparr>events = events w @ [Called NewAIConfigService, Called FindAll], outside = x2\<rparr>)"
  using assms by (simp add: seedDefaultAIConfigs_def await_def invoke_def)

theorem seedDefaultAIConfigs_existing_configs_witness:
  "seedDefaultAIConfigs (backend_services ''ik_1'' 3)
     \<lparr>events = [], outside = cloud_backend\<lparr>configs := [image_config]\<rparr>\<rparr> =
     (Inr (), \<lparr>events = [Called NewAIConfigService, Called FindAll],
        outside = cloud_backend\<lparr>configs := [image_config]\<rparr>\<rparr>)"
  using seedDefaultAIConfigs_existing_configs [of "backend_services ''ik_1'' 3"
      "\<lparr>events = [], outside = cloud_backend\<lparr>configs := [image_config]\<rparr>\<rparr>"
      "cloud_backend\<lparr>configs := [image_config]\<rparr>" "[image_config]"
      "cloud_backend\<lparr>configs := [image_config]\<rparr>"]
  by (simp add: backend_services_def cloud_backend_def AIConfigService_findAll_def)

text \<open>
  Claim C3. In cloud mode, when \<open>findAll\<close> returns the empty collection and both
  \<open>create\<close> calls return, \<open>seedDefaultAIConfigs\<close> issues exactly two \<open>create\<close> calls,
  the text record first and the image record second, with the field values of the
  claim (the image record has no system prompt), and then logs the confirmation.
\<close>

theorem seedDefaultAIConfigs_creates_defaults:
  assumes "isCloudEnvironment sv (outside w)"
    and "newAIConfigService sv (outside w) = (Inr (), x1)"
    and "findAll sv x1 = (Inr [], x2)"
    and "create sv text_config x2 = (Inr (), x3)"
    and "create sv image_config x3 = (Inr (), x4)"
  shows "seedDefaultAIConfigs sv w =
     (Inr (), \<lparr>events = events w @
        [Called NewAIConfigService, Called FindAll,
         Called (Create \<lparr>modality = ''text'', provider = ''openrouter'',
            model = ''anthropic/claude-3.5-haiku'',
            systemPrompt = Some ''You are a helpful assistant.''\<rparr>),
         Called (Create \<lparr>modality = ''image'', provider = ''openrouter'',
            model = ''google/gemini-2.5-flash-image-preview'', systemPrompt = None\<rparr>),
         Logged Info (check_mark @ '' Default AI models configured (cloud environment)'') []],
       outside = x4\<rparr>)"
  using assms by (simp add: seedDefaultAIConfigs_def await_def invoke_def logger_def text_config_def image_config_def)

theorem seedDefaultAIConfigs_creates_defaults_witness:
  "seedDefaultAIConfigs (backend_services ''ik_1'' 3) \<lparr>events = [], outside = cloud_backend\<rparr> =
     (Inr (), \<lparr>events =
        [Called NewAIConfigService, Called FindAll,
         Called (Create \<lparr>modality = ''text'', provider = ''openrouter'',
            model = ''anthropic/claude-3.5-haiku'',
            systemPrompt = Some ''You are a helpful assistant.''\<rparr>),
         Called (Create \<lparr>modality = ''image'', provider = ''openrouter'',
            model = ''google/gemini-2.5-flash-image-preview'', systemPrompt = None\<rparr>),
         Logged Info (check_mark @ '' Default AI models configured (cloud environment)'') []],
       outside = cloud_backend\<lparr>configs := [text_config, image_config]\<rparr>\<rparr>)"
  using seedDefaultAIConfigs_creates_defaults [of "backend_services ''ik_1'' 3" "\<lparr>events = [], outside = cloud_backend\<rparr>"
      cloud_backend cloud_backend "cloud_backend\<lparr>configs := [text_config]\<rparr>"
      "cloud_backend\<lparr>configs := [text_config, image_config]\<rparr>"]
  by (simp add: backend_services_def cloud_backend_def AIConfigService_findAll_def
      AIConfigService_create_def)

text \<open>
  Claim C2. On the store that follows the spec, in cloud mode and from every store
  content: a second run of \<open>seedDefaultAIConfigs\<close> right after the first one leaves the
  store as the first run left it and issues no \<open>create\<close> call (it only constructs the
  service and calls \<open>findAll\<close>); and when the store was empty at the start, it holds
  exactly the two default records after the first run.
\<close>

theorem seedDefaultAIConfigs_idempotent:
  assumes "cloud x"
  shows "let sv = backend_services apiKey tableCount;
             start = \<lparr>events = evs, outside = x\<rparr>;
             first = snd (seedDefaultAIConfigs sv start);
             second = snd (seedDefaultAIConfigs sv first)
         in fst (seedDefaultAIConfigs sv start) = Inr () \<and>
            fst (seedDefaultAIConfigs sv first) = Inr () \<and>
            (configs x = [] \<longrightarrow> configs (outside first) = [text_config, image_config]) \<and>
            configs (outside second) = configs (outside first) \<and>
            emitted first second = [Called NewAIConfigService, Called FindAll]"
  using assms
  by (cases "configs x")
     (simp_all add: seedDefaultAIConfigs_def await_def invoke_def logger_def backend_services_def
        AIConfigService_findAll_def AIConfigService_create_def Let_def emitted_def)

theorem seedDefaultAIConfigs_idempotent_witness:
  "cloud cloud_backend \<and>
   configs (outside (snd (seedDefaultAIConfigs (backend_services ''ik_1'' 3)
      \<lparr>events = [], outside = cloud_backend\<rparr>))) = [text_config, image_config] \<and>
   configs (outside (snd (seedDefaultAIConfigs (backend_services ''ik_1'' 3)
      (snd (seedDefaultAIConfigs (backend_services ''ik_1'' 3)
         \<lparr>events = [], outside = cloud_backend\<rparr>))))) = [text_config, image_config]"
  using seedDefaultAIConfigs_idempotent [of cloud_backend "''ik_1''" 3 "[]"]
  by (simp add: Let_def cloud_backend_def)

text \<open>
  Claim C10. The two singleton accessors run before the \<^verbatim>\<open>try\<close> block: when
  \<open>AuthService.getInstance()\<close> throws, or it returns and
  \<open>DatabaseManager.getInstance()\<close> throws, \<open>seedBackend\<close> throws that same value to
  its caller, and it has logged nothing (not even the starting line, the first statement
  of the \<^verbatim>\<open>try\<close> block).
\<close>

theorem seedBackend_getInstance_propagates:
  assumes "AuthService_getInstance sv (outside w) = (Inl e, x1) \<or>
           (AuthService_getInstance sv (outside w) = (Inr (), x0) \<and>
            DatabaseManager_getInstance sv x0 = (Inl e, x1))"
  shows "fst (seedBackend sv w) = Inl e \<and>
         outside (snd (seedBackend sv w)) = x1 \<and>
         filter is_logged (emitted w (snd (seedBackend sv w))) = []"
  using assms
  by (auto simp: seedBackend_def await_def invoke_def emitted_def)

theorem seedBackend_getInstance_propagates_witness:
  "fst (seedBackend ((backend_services ''ik_1'' 3)
      \<lparr>AuthService_getInstance := (\<lambda>x. (Inl (JsError ''auth not ready''), x))\<rparr>)
     \<lparr>events = [], outside = local_backend\<rparr>) = Inl (JsError ''auth not ready'') \<and>
   fst (seedBackend ((backend_services ''ik_1'' 3)
      \<lparr>DatabaseManager_getInstance := (\<lambda>x. (Inl (JsOther ''no pool''), x))\<rparr>)
     \<lparr>events = [], outside = local_backend\<rparr>) = Inl (JsOther ''no pool'')"
  using seedBackend_getInstance_propagates [of "(backend_services ''ik_1'' 3)
      \<lparr>AuthService_getInstance := (\<lambda>x. (Inl (JsError ''auth not ready''), x))\<rparr>"
      "\<lparr>events = [], outside = local_backend\<rparr>" "JsError ''auth not ready''" local_backend local_backend]
    seedBackend_getInstance_propagates [of "(backend_services ''ik_1'' 3)
      \<lparr>DatabaseManager_getInstance := (\<lambda>x. (Inl (JsOther ''no pool''), x))\<rparr>"
      "\<lparr>events = [], outside = local_backend\<rparr>" "JsOther ''no pool''" local_backend local_backend]
  by (simp add: backend_services_def)

text \<open>
  Claim C1, as stated, fails on the code for a thrown value that the catch block cannot
  render. Here the API-key initialization throws an object whose conversion to a string
  throws a \<open>TypeError\<close>: that exception leaves the catch block, so \<open>seedBackend\<close> throws it
  to its caller, and no Error line is logged.
\<close>

theorem seedBackend_unrenderable_escapes:
  "fst (seedBackend ((backend_services ''ik_1'' 3)
      \<lparr>initializeApiKey :=
         (\<lambda>x. (Inl (JsUnrenderable (JsError ''Cannot convert object to primitive value'')), x))\<rparr>)
     \<lparr>events = [], outside = local_backend\<rparr>) =
     Inl (JsError ''Cannot convert object to primitive value'') \<and>
   logs_at Error (emitted \<lparr>events = [], outside = local_backend\<rparr>
     (snd (seedBackend ((backend_services ''ik_1'' 3)
        \<lparr>initializeApiKey :=
           (\<lambda>x. (Inl (JsUnrenderable (JsError ''Cannot convert object to primitive value'')), x))\<rparr>)
      \<lparr>events = [], outside = local_backend\<rparr>))) = []"
  by (simp add: seedBackend_def seedBackend_try_def seedBackend_catch_def ensureFirstAdmin_def
      await_def invoke_def logger_def Let_def backend_services_def local_backend_def
      emitted_def logs_at_def)

text \<open>
  Claim C1, amended. Once the two singleton accessors have returned, for every
  behaviour of the other collaborators (API-key initialization, table-count query,
  construction of the AI configuration service, \<open>findAll\<close>, \<open>create\<close>) and every
  environment: when no call of the startup sequence throws, \<open>seedBackend\<close> returns
  normally and logs no Error line; when a call throws a value that the catch block can
  render (an \<open>Error\<close>, or a value that \<^verbatim>\<open>String()\<close> converts), \<open>seedBackend\<close> returns
  normally, leaves the outside state as the failing call left it, and the run holds
  exactly one line at level Error, its last event: "Error during setup" with the text of
  the thrown value.
\<close>

theorem seedBackend_suppresses_errors:
  assumes "AuthService_getInstance sv (outside w) = (Inr (), x1)"
    and "DatabaseManager_getInstance sv x1 = (Inr (), x2)"
  shows "(service_failure sv x2 = None \<longrightarrow>
            fst (seedBackend sv w) = Inr () \<and>
            logs_at Error (emitted w (snd (seedBackend sv w))) = []) \<and>
         (\<forall>e x rendered.
            service_failure sv x2 = Some (e, x) \<longrightarrow> error_text e = Inr rendered \<longrightarrow>
            fst (seedBackend sv w) = Inr () \<and>
            outside (snd (seedBackend sv w)) = x \<and>
            logs_at Error (emitted w (snd (seedBackend sv w))) =
              [Logged Error ''Error during setup'' [(''error'', rendered)]] \<and>
            (\<exists>before. emitted w (snd (seedBackend sv w)) =
               before @ [Logged Error ''Error during setup'' [(''error'', rendered)]]))"
proof -
  let ?em = "or_default (process_env sv x2 ''ADMIN_EMAIL'') ''admin@example.com''"
  let ?pw = "or_default (process_env sv x2 ''ADMIN_PASSWORD'') ''change-this-password''"
  let ?w2 = "\<lparr>events = events w @ [Called GetAuthInstance, Called GetDbInstance], outside = x2\<rparr>"
  let ?new = "emitted w (snd (seedBackend sv w))"
  from seedBackend_events [OF assms]
  obtain rest tail where new: "?new =
      Called GetAuthInstance # Called GetDbInstance # start_event # admin_event ?em ?pw # rest @ tail"
    and quiet: "list_all quiet rest"
    and out: "outside (snd (seedBackend sv w)) = outside (snd (seedBackend_try sv ?em ?pw ?w2))"
    and tail: "case fst (seedBackend_try sv ?em ?pw ?w2) of
        Inl error \<Rightarrow>
          (case error_text error of
             Inr msg \<Rightarrow>
               tail = [Logged Error ''Error during setup'' [(''error'', msg)]] \<and>
               fst (seedBackend sv w) = Inr ()
           | Inl t \<Rightarrow> tail = [] \<and> fst (seedBackend sv w) = Inl t)
      | Inr _ \<Rightarrow> tail = [] \<and> fst (seedBackend sv w) = Inr () \<and>
          (\<exists>a b. map step_of rest = 3 # 4 # 5 # replicate a 6 @ replicate b 7 @ [8, 8])"
    by (elim exE conjE) (rule that, assumption+)
  have "logs_at Error [Called GetAuthInstance, Called GetDbInstance, start_event,
      admin_event ?em ?pw] = []"
    by (simp add: logs_at_def start_event_def admin_event_def)
  moreover have "logs_at Error rest = []"
    using logs_at_quiet [OF quiet] by (rule conjunct1)
  moreover have "?new = [Called GetAuthInstance, Called GetDbInstance, start_event,
      admin_event ?em ?pw] @ rest @ tail"
    unfolding new by simp
  ultimately have errors: "logs_at Error ?new = logs_at Error tail"
    by (simp only: logs_at_append append_Nil)
  have none: "fst (seedBackend_try sv ?em ?pw ?w2) = Inr ()" if "service_failure sv x2 = None"
    using that by (intro seedBackend_try_returns) simp
  have some: "fst (seedBackend_try sv ?em ?pw ?w2) = Inl e \<and>
      outside (snd (seedBackend_try sv ?em ?pw ?w2)) = x"
    if "service_failure sv x2 = Some (e, x)" for e x
    using that by (intro seedBackend_try_throws) simp
  have quiet_run: "fst (seedBackend sv w) = Inr () \<and> logs_at Error ?new = []"
    if "service_failure sv x2 = None"
  proof -
    from none [OF that] tail have "tail = []" and "fst (seedBackend sv w) = Inr ()"
      by simp_all
    then show ?thesis
      unfolding errors by (simp add: logs_at_def)
  qed
  have caught: "fst (seedBackend sv w) = Inr () \<and>
      outside (snd (seedBackend sv w)) = x \<and>
      logs_at Error ?new = [Logged Error ''Error during setup'' [(''error'', rendered)]] \<and>
      (\<exists>before. ?new = before @ [Logged Error ''Error during setup'' [(''error'', rendered)]])"
    if "service_failure sv x2 = Some (e, x)" and "error_text e = Inr rendered" for e x rendered
  proof -
    from some [OF that(1)] have threw: "fst (seedBackend_try sv ?em ?pw ?w2) = Inl e"
      and left: "outside (snd (seedBackend_try sv ?em ?pw ?w2)) = x"
      by (rule conjunct1, rule conjunct2)
    from tail have "tail = [Logged Error ''Error during setup'' [(''error'', rendered)]] \<and>
        fst (seedBackend sv w) = Inr ()"
      unfolding threw by (simp add: that(2))
    then have t: "tail = [Logged Error ''Error during setup'' [(''error'', rendered)]]"
      and f: "fst (seedBackend sv w) = Inr ()"
      by (rule conjunct1, rule conjunct2)
    have "\<exists>before. ?new = before @ [Logged Error ''Error during setup'' [(''error'', rendered)]]"
      unfolding new t
      by (rule exI [of _ "Called GetAuthInstance # Called GetDbInstance # start_event #
        admin_event ?em ?pw # rest"]) simp
    moreover have "logs_at Error ?new = [Logged Error ''Error during setup'' [(''error'', rendered)]]"
      unfolding errors t by (rule logs_at_Error)
    moreover have "outside (snd (seedBackend sv w)) = x"
      unfolding out by (rule left)
    ultimately show ?thesis using f by (intro conjI)
  qed
  show ?thesis
  proof (rule conjI)
    show "service_failure sv x2 = None \<longrightarrow>
        fst (seedBackend sv w) = Inr () \<and> logs_at Error ?new = []"
      by (intro impI quiet_run)
    show "\<forall>e x rendered.
        service_failure sv x2 = Some (e, x) \<longrightarrow> error_text e = Inr rendered \<longrightarrow>
        fst (seedBackend sv w) = Inr () \<and>
        outside (snd (seedBackend sv w)) = x \<and>
        logs_at Error ?new = [Logged Error ''Error during setup'' [(''error'', rendered)]] \<and>
        (\<exists>before. ?new = before @ [Logged Error ''Error during setup'' [(''error'', rendered)]])"
      by (intro allI impI caught)
  qed
qed

theorem seedBackend_suppresses_errors_witness:
  "fst (seedBackend ((backend_services ''ik_1'' 3)
      \<lparr>findAll := (\<lambda>x. (Inl (JsError ''relation does not exist''), x))\<rparr>)
     \<lparr>events = [], outside = cloud_backend\<rparr>) = Inr () \<and>
   logs_at Error (emitted \<lparr>events = [], outside = cloud_backend\<rparr>
     (snd (seedBackend ((backend_services ''ik_1'' 3)
        \<lparr>findAll := (\<lambda>x. (Inl (JsError ''relation does not exist''), x))\<rparr>)
      \<lparr>events = [], outside = cloud_backend\<rparr>))) =
     [Logged Error ''Error during setup'' [(''error'', ''relation does not exist'')]] \<and>
   fst (seedBackend (backend_services ''ik_1'' 3) \<lparr>events = [], outside = cloud_backend\<rparr>) = Inr () \<and>
   logs_at Error (emitted \<lparr>events = [], outside = cloud_backend\<rparr>
     (snd (seedBackend (backend_services ''ik_1'' 3) \<lparr>events = [], outside = cloud_backend\<rparr>))) = []"
proof -
  let ?failing = "(backend_services ''ik_1'' 3)
      \<lparr>findAll := (\<lambda>x. (Inl (JsError ''relation does not exist''), x))\<rparr>"
  let ?w = "\<lparr>events = [], outside = cloud_backend\<rparr>"
  have auth: "AuthService_getInstance ?failing (outside ?w) = (Inr (), cloud_backend)"
    and db: "DatabaseManager_getInstance ?failing cloud_backend = (Inr (), cloud_backend)"
    and failure: "service_failure ?failing cloud_backend =
      Some (JsError ''relation does not exist'', cloud_backend)"
    and rendered: "error_text (JsError ''relation does not exist'') = Inr ''relation does not exist''"
    by (simp_all add: backend_services_def service_failure_def cloud_backend_def)
  have auth': "AuthService_getInstance (backend_services ''ik_1'' 3) (outside ?w) =
      (Inr (), cloud_backend)"
    and db': "DatabaseManager_getInstance (backend_services ''ik_1'' 3) cloud_backend =
      (Inr (), cloud_backend)"
    and no_failure: "service_failure (backend_services ''ik_1'' 3) cloud_backend = None"
    by (simp_all add: backend_services_def service_failure_def cloud_backend_def
        AIConfigService_findAll_def AIConfigService_create_def)
  note caught = seedBackend_suppresses_errors [OF auth db, THEN conjunct2, rule_format,
      OF failure rendered]
  note clean = seedBackend_suppresses_errors [OF auth' db', THEN conjunct1, rule_format,
      OF no_failure]
  from caught [THEN conjunct1] caught [THEN conjunct2, THEN conjunct2, THEN conjunct1]
    clean [THEN conjunct1] clean [THEN conjunct2]
  show ?thesis by (intro conjI)
qed

text \<open>
  Claim C6, as stated, fails on the code for a thrown value that the catch block cannot
  render. Here the creation of the image record throws an object whose conversion to a
  string throws a \<open>TypeError\<close>: \<open>seedBackend\<close> throws that exception to its caller and
  logs no Error line. The text record is still stored.
\<close>

theorem seedBackend_partial_seed_unrenderable:
  "fst (seedBackend ((backend_services ''ik_1'' 3)
      \<lparr>create := (\<lambda>c x. if modality c = ''image''
           then (Inl (JsUnrenderable (JsError ''Cannot convert object to primitive value'')), x)
           else AIConfigService_create c x)\<rparr>)
     \<lparr>events = [], outside = cloud_backend\<rparr>) =
     Inl (JsError ''Cannot convert object to primitive value'') \<and>
   configs (outside (snd (seedBackend ((backend_services ''ik_1'' 3)
      \<lparr>create := (\<lambda>c x. if modality c = ''image''
           then (Inl (JsUnrenderable (JsError ''Cannot convert object to primitive value'')), x)
           else AIConfigService_create c x)\<rparr>)
     \<lparr>events = [], outside = cloud_backend\<rparr>))) = [text_config] \<and>
   logs_at Error (emitted \<lparr>events = [], outside = cloud_backend\<rparr>
     (snd (seedBackend ((backend_services ''ik_1'' 3)
      \<lparr>create := (\<lambda>c x. if modality c = ''image''
           then (Inl (JsUnrenderable (JsError ''Cannot convert object to primitive value'')), x)
           else AIConfigService_create c x)\<rparr>)
     \<lparr>events = [], outside = cloud_backend\<rparr>))) = []"
  by (simp add: seedBackend_def seedBackend_try_def seedBackend_catch_def seedDefaultAIConfigs_def
      ensureFirstAdmin_def await_def invoke_def logger_def Let_def backend_services_def
      cloud_backend_def AIConfigService_findAll_def AIConfigService_create_def table_count_def
      text_config_def image_config_def emitted_def logs_at_def)

text \<open>
  Claim C6, amended. When every call up to the first \<open>create\<close> returns (cloud mode,
  empty store) and the second \<open>create\<close>, of the image record, throws a value that the
  catch block can render, \<open>seedBackend\<close> returns normally; the outside state is
  exactly the one the failing call left (so what the first \<open>create\<close> persisted is still
  there); the calls of the run are the eight listed, with no call after the failing one
  (no rollback, no retry); and the run's only Error line is the "Error during setup"
  line with the rendered text, logged right after the failing call.
\<close>

theorem seedBackend_partial_seed:
  assumes "AuthService_getInstance sv (outside w) = (Inr (), x1)"
    and "DatabaseManager_getInstance sv x1 = (Inr (), x2)"
    and "initializeApiKey sv x2 = (Inr apiKey, x3)"
    and "getUserTableCount sv x3 = (Inr tableCount, x4)"
    and "isCloudEnvironment sv x4"
    and "newAIConfigService sv x4 = (Inr (), x5)"
    and "findAll sv x5 = (Inr [], x6)"
    and "create sv text_config x6 = (Inr (), x7)"
    and "create sv image_config x7 = (Inl error, x8)"
    and "error_text error = Inr rendered"
  shows "fst (seedBackend sv w) = Inr () \<and>
     outside (snd (seedBackend sv w)) = x8 \<and>
     calls_of (emitted w (snd (seedBackend sv w))) =
       [GetAuthInstance, GetDbInstance, InitializeApiKey, GetUserTableCount,
        NewAIConfigService, FindAll, Create text_config, Create image_config] \<and>
     logs_at Error (emitted w (snd (seedBackend sv w))) =
       [Logged Error ''Error during setup'' [(''error'', rendered)]] \<and>
     (\<exists>before. emitted w (snd (seedBackend sv w)) =
        before @ [Called (Create text_config), Called (Create image_config),
                  Logged Error ''Error during setup'' [(''error'', rendered)]])"
proof -
  let ?em = "or_default (process_env sv x2 ''ADMIN_EMAIL'') ''admin@example.com''"
  let ?pw = "or_default (process_env sv x2 ''ADMIN_PASSWORD'') ''change-this-password''"
  let ?w2 = "\<lparr>events = events w @ [Called GetAuthInstance, Called GetDbInstance], outside = x2\<rparr>"
  define db where "db = Logged Info (check_mark @ '' Database connected to PostgreSQL'')
                  [(''host'', or_default (process_env sv x4 ''POSTGRES_HOST'') ''localhost''),
                   (''port'', or_default (process_env sv x4 ''POSTGRES_PORT'') ''5432''),
                   (''database'', or_default (process_env sv x4 ''POSTGRES_DB'') ''insforge'')]"
  define found where "found =
        (if greater_than_zero tableCount
         then [Logged Info (check_mark @ '' Found '' @ in_template tableCount @ '' user tables'') []]
         else [])"
  define w4 where "w4 = \<lparr>events = events ?w2 @
      [start_event, admin_event ?em ?pw, Called InitializeApiKey, Called GetUserTableCount, db] @ found,
      outside = x4\<rparr>"
  have seed: "seedDefaultAIConfigs sv w4 =
      (Inl error, \<lparr>events = events w4 @
         [Called NewAIConfigService, Called FindAll, Called (Create text_config),
          Called (Create image_config)], outside = x8\<rparr>)"
    using assms(5-9) by (simp add: seedDefaultAIConfigs_def invoke_def await_def w4_def)
  have body: "seedBackend_try sv ?em ?pw ?w2 =
      (Inl error, \<lparr>events = events w4 @
         [Called NewAIConfigService, Called FindAll, Called (Create text_config),
          Called (Create image_config)], outside = x8\<rparr>)"
    using assms(3,4) seed
    unfolding seedBackend_try_def Let_def
    by (cases "greater_than_zero tableCount")
       (simp_all add: ensureFirstAdmin_admin_event logger_eq invoke_def await_Inr await_Inl
          start_event_def w4_def db_def found_def)
  have db: "is_logged db" "level_of db = Some Info"
    by (simp_all add: db_def)
  have found: "calls_of (found @ evs) = calls_of evs" "logs_at Error (found @ evs) = logs_at Error evs"
    for evs
    by (simp_all add: found_def logs_at_def)
  have run: "seedBackend sv w =
      (Inr (), \<lparr>events = events w @
         ([Called GetAuthInstance, Called GetDbInstance, start_event, admin_event ?em ?pw,
           Called InitializeApiKey, Called GetUserTableCount, db] @ found @
          [Called NewAIConfigService, Called FindAll]) @
         [Called (Create text_config), Called (Create image_config),
          Logged Error ''Error during setup'' [(''error'', rendered)]], outside = x8\<rparr>)"
    by (simp add: seedBackend_acquired [OF assms(1,2)] body seedBackend_catch_def assms(10)
        logger_eq w4_def)
  have "fst (seedBackend sv w) = Inr ()" "outside (snd (seedBackend sv w)) = x8"
    by (simp_all add: run)
  moreover have "calls_of (emitted w (snd (seedBackend sv w))) =
       [GetAuthInstance, GetDbInstance, InitializeApiKey, GetUserTableCount,
        NewAIConfigService, FindAll, Create text_config, Create image_config]"
    unfolding run
    by (simp add: calls_of_logged admin_event_logged start_event_logged db found)
  moreover have "logs_at Error (emitted w (snd (seedBackend sv w))) =
       [Logged Error ''Error during setup'' [(''error'', rendered)]]"
    unfolding run
    by (simp add: logs_at_other logs_at_Called logs_at_Error admin_event_logged
        start_event_logged db found)
  moreover have "\<exists>before. emitted w (snd (seedBackend sv w)) =
        before @ [Called (Create text_config), Called (Create image_config),
                  Logged Error ''Error during setup'' [(''error'', rendered)]]"
    unfolding run snd_conv emitted_append' by (rule exI) (rule refl)
  ultimately show ?thesis by blast
qed

theorem seedBackend_partial_seed_witness:
  "fst (seedBackend ((backend_services ''ik_1'' 3)
      \<lparr>create := (\<lambda>c x. if modality c = ''image'' then (Inl (JsError ''quota exceeded''), x)
                         else AIConfigService_create c x)\<rparr>)
     \<lparr>events = [], outside = cloud_backend\<rparr>) = Inr () \<and>
   configs (outside (snd (seedBackend ((backend_services ''ik_1'' 3)
      \<lparr>create := (\<lambda>c x. if modality c = ''image'' then (Inl (JsError ''quota exceeded''), x)
                         else AIConfigService_create c x)\<rparr>)
     \<lparr>events = [], outside = cloud_backend\<rparr>))) = [text_config] \<and>
   logs_at Error (emitted \<lparr>events = [], outside = cloud_backend\<rparr>
     (snd (seedBackend ((backend_services ''ik_1'' 3)
      \<lparr>create := (\<lambda>c x. if modality c = ''image'' then (Inl (JsError ''quota exceeded''), x)
                         else AIConfigService_create c x)\<rparr>)
     \<lparr>events = [], outside = cloud_backend\<rparr>))) =
     [Logged Error ''Error during setup'' [(''error'', ''quota exceeded'')]]"
proof -
  let ?sv = "(backend_services ''ik_1'' 3)
      \<lparr>create := (\<lambda>c x. if modality c = ''image'' then (Inl (JsError ''quota exceeded''), x)
                         else AIConfigService_create c x)\<rparr>"
  let ?w = "\<lparr>events = [], outside = cloud_backend\<rparr>"
  let ?stored = "cloud_backend\<lparr>configs := [text_config]\<rparr>"
  have auth: "AuthService_getInstance ?sv (outside ?w) = (Inr (), cloud_backend)"
    and db: "DatabaseManager_getInstance ?sv cloud_backend = (Inr (), cloud_backend)"
    and key: "initializeApiKey ?sv cloud_backend = (Inr ''ik_1'', cloud_backend)"
    and count: "getUserTableCount ?sv cloud_backend = (Inr (table_count 3), cloud_backend)"
    and mode: "isCloudEnvironment ?sv cloud_backend"
    and new: "newAIConfigService ?sv cloud_backend = (Inr (), cloud_backend)"
    and find: "findAll ?sv cloud_backend = (Inr [], cloud_backend)"
    and first: "create ?sv text_config cloud_backend = (Inr (), ?stored)"
    and second: "create ?sv image_config ?stored = (Inl (JsError ''quota exceeded''), ?stored)"
    and rendered: "error_text (JsError ''quota exceeded'') = Inr ''quota exceeded''"
    by (simp_all add: backend_services_def cloud_backend_def AIConfigService_findAll_def
        AIConfigService_create_def text_config_def image_config_def)
  note run = seedBackend_partial_seed [OF auth db key count mode new find first second rendered]
  have "configs ?stored = [text_config]"
    by simp
  with run [THEN conjunct1] run [THEN conjunct2, THEN conjunct1]
    run [THEN conjunct2, THEN conjunct2, THEN conjunct2, THEN conjunct1]
  show ?thesis by simp
qed

text \<open>
  Claim C9. In every run of \<open>seedBackend\<close> the events come in the order of the steps:
  the list of their step numbers is sorted, so an event of an earlier step always
  precedes an event of a later one; in particular every event of the seeder (step 7)
  precedes the API-key line (step 8). In a run that returns without an Error line, all
  steps are there: the two accessors and the starting line, the credential check, the
  API-key initialization, the table-count query, the connectivity summary, the optional
  table-count line, the seeder's events, and last the API-key and setup-complete lines.
  An awaited call is one event, and the step after it starts from the state the call
  ended in.
\<close>

theorem seedBackend_step_order:
  "sorted (map step_of (emitted w (snd (seedBackend sv w)))) \<and>
   (\<forall>i j. i < length (emitted w (snd (seedBackend sv w))) \<and>
          j < length (emitted w (snd (seedBackend sv w))) \<and>
          step_of (emitted w (snd (seedBackend sv w)) ! i) < step_of (emitted w (snd (seedBackend sv w)) ! j)
          \<longrightarrow> i < j) \<and>
   (fst (seedBackend sv w) = Inr () \<and> logs_at Error (emitted w (snd (seedBackend sv w))) = [] \<longrightarrow>
      (\<exists>a b. map step_of (emitted w (snd (seedBackend sv w))) =
         0 # 0 # 0 # 2 # 3 # 4 # 5 # replicate a 6 @ replicate b 7 @ [8, 8]))"
proof -
  let ?new = "emitted w (snd (seedBackend sv w))"
  obtain r1 x1 where c1: "AuthService_getInstance sv (outside w) = (r1, x1)" by force
  obtain r2 x2 where c2: "DatabaseManager_getInstance sv x1 = (r2, x2)" by force
  have main: "sorted (map step_of ?new) \<and>
     (fst (seedBackend sv w) = Inr () \<and> logs_at Error ?new = [] \<longrightarrow>
      (\<exists>a b. map step_of ?new = 0 # 0 # 0 # 2 # 3 # 4 # 5 # replicate a 6 @ replicate b 7 @ [8, 8]))"
  proof (cases r1)
    case (Inl e)
    then have "seedBackend sv w = (Inl e, \<lparr>events = events w @ [Called GetAuthInstance], outside = x1\<rparr>)"
      using c1 by (simp add: seedBackend_def invoke_def await_Inl)
    then show ?thesis by simp
  next
    case auth: (Inr u)
    show ?thesis
    proof (cases r2)
      case (Inl e)
      then have "seedBackend sv w =
          (Inl e, \<lparr>events = events w @ [Called GetAuthInstance, Called GetDbInstance], outside = x2\<rparr>)"
        using c1 c2 auth by (simp add: seedBackend_def invoke_def await_Inl await_Inr)
      then show ?thesis by simp
    next
      case db: (Inr u')
      let ?em = "or_default (process_env sv x2 ''ADMIN_EMAIL'') ''admin@example.com''"
      let ?pw = "or_default (process_env sv x2 ''ADMIN_PASSWORD'') ''change-this-password''"
      let ?w2 = "\<lparr>events = events w @ [Called GetAuthInstance, Called GetDbInstance], outside = x2\<rparr>"
      from c1 c2 auth db have acq: "AuthService_getInstance sv (outside w) = (Inr (), x1)"
        "DatabaseManager_getInstance sv x1 = (Inr (), x2)"
        by simp_all
      from seedBackend_events [OF acq]
      obtain rest tail where new: "?new =
          Called GetAuthInstance # Called GetDbInstance # start_event # admin_event ?em ?pw # rest @ tail"
        and rest: "sorted (map step_of rest)" "list_all (\<lambda>s. 3 \<le> s \<and> s \<le> 8) (map step_of rest)"
        and tail: "case fst (seedBackend_try sv ?em ?pw ?w2) of
            Inl error \<Rightarrow>
              (case error_text error of
                 Inr msg \<Rightarrow>
                   tail = [Logged Error ''Error during setup'' [(''error'', msg)]] \<and>
                   fst (seedBackend sv w) = Inr ()
               | Inl t \<Rightarrow> tail = [] \<and> fst (seedBackend sv w) = Inl t)
          | Inr _ \<Rightarrow> tail = [] \<and> fst (seedBackend sv w) = Inr () \<and>
              (\<exists>a b. map step_of rest = 3 # 4 # 5 # replicate a 6 @ replicate b 7 @ [8, 8])"
        by (elim exE conjE) (rule that, assumption+)
      show ?thesis
      proof (cases "fst (seedBackend_try sv ?em ?pw ?w2)")
        case threw: (Inl error)
        show ?thesis
        proof (cases "error_text error")
          case (Inl t)
          with tail threw have t: "tail = []" and f: "fst (seedBackend sv w) = Inl t"
            by simp_all
          have "sorted (map step_of ?new)"
            unfolding new t using rest
            by (auto simp: sorted_append step_of_start_event step_of_admin_event list_all_iff)
          with f show ?thesis by simp
        next
          case (Inr msg)
          with tail threw have t: "tail = [Logged Error ''Error during setup'' [(''error'', msg)]]"
            by simp
          have "logs_at Error ?new \<noteq> []"
            unfolding new t by (simp add: logs_at_def)
          moreover have "sorted (map step_of ?new)"
            unfolding new t using rest
            by (auto simp: sorted_append step_of_start_event step_of_admin_event step_error list_all_iff)
          ultimately show ?thesis by simp
        qed
      next
        case (Inr u'')
        with tail obtain a b where t: "tail = []"
          and s: "map step_of rest = 3 # 4 # 5 # replicate a 6 @ replicate b 7 @ [8, 8]"
          by auto
        have steps: "map step_of ?new =
            0 # 0 # 0 # 2 # 3 # 4 # 5 # replicate a 6 @ replicate b 7 @ [8, 8]"
          unfolding new t by (simp add: step_of_start_event step_of_admin_event s)
        then have "sorted (map step_of ?new)"
          by (auto simp: sorted_append)
        moreover have "\<exists>a b. map step_of ?new =
            0 # 0 # 0 # 2 # 3 # 4 # 5 # replicate a 6 @ replicate b 7 @ [8, 8]"
          using steps by (intro exI)
        ultimately show ?thesis by (intro conjI impI)
      qed
    qed
  qed
  have "\<forall>i j. i < length ?new \<and> j < length ?new \<and>
      step_of (?new ! i) < step_of (?new ! j) \<longrightarrow> i < j"
    using main sorted_map_less [of step_of ?new] by blast
  with main show ?thesis by (intro conjI) (elim conjE, assumption)+
qed

theorem seedBackend_step_order_witness:
  "map step_of (emitted \<lparr>events = [], outside = cloud_backend\<rparr>
      (snd (seedBackend (backend_services ''ik_1'' 3) \<lparr>events = [], outside = cloud_backend\<rparr>))) =
     [0, 0, 0, 2, 3, 4, 5, 6, 7, 7, 7, 7, 7, 8, 8] \<and>
   sorted (map step_of (emitted \<lparr>events = [], outside = cloud_backend\<rparr>
      (snd (seedBackend (backend_services ''ik_1'' 3) \<lparr>events = [], outside = cloud_backend\<rparr>))))"
proof -
  have steps: "map step_of (emitted \<lparr>events = [], outside = cloud_backend\<rparr>
      (snd (seedBackend (backend_services ''ik_1'' 3) \<lparr>events = [], outside = cloud_backend\<rparr>))) =
     [0, 0, 0, 2, 3, 4, 5, 6, 7, 7, 7, 7, 7, 8, 8]"
    by (simp add: seedBackend_def seedBackend_try_def seedDefaultAIConfigs_def ensureFirstAdmin_def
      await_def invoke_def logger_def Let_def backend_services_def cloud_backend_def
      AIConfigService_findAll_def AIConfigService_create_def emitted_def table_count_def
      step_norm)
  from steps seedBackend_step_order [of "\<lparr>events = [], outside = cloud_backend\<rparr>" "backend_services ''ik_1'' 3",
      THEN conjunct1]
  show ?thesis by (intro conjI)
qed

text \<open>
  Claim C8, as stated, fails on the code: with both variables unset and every
  collaborator returning, the run logs the placeholder email, and no line of the log
  carries the placeholder password.
\<close>

theorem seedBackend_password_not_logged:
  "process_env (backend_services ''ik_1'' 0) local_backend ''ADMIN_EMAIL'' = None \<and>
   process_env (backend_services ''ik_1'' 0) local_backend ''ADMIN_PASSWORD'' = None \<and>
   seedBackend (backend_services ''ik_1'' 0) \<lparr>events = [], outside = local_backend\<rparr> =
     (Inr (), \<lparr>events =
        [Called GetAuthInstance, Called GetDbInstance,
         Logged Info ([CHR 0x0A] @ rocket @ '' Insforge Backend Starting...'') [],
         Logged Info (check_mark @ '' Admin configured: admin@example.com'') [],
         Called InitializeApiKey, Called GetUserTableCount,
         Logged Info (check_mark @ '' Database connected to PostgreSQL'')
           [(''host'', ''localhost''), (''port'', ''5432''), (''database'', ''insforge'')],
         Logged Info ''API key generated: ik_1'' [],
         Logged Info setup_complete []],
       outside = local_backend\<rparr>) \<and>
   filter (mentions ''change-this-password'')
     (events (snd (seedBackend (backend_services ''ik_1'' 0)
        \<lparr>events = [], outside = local_backend\<rparr>))) = []"
proof -
  have run: "seedBackend (backend_services ''ik_1'' 0) \<lparr>events = [], outside = local_backend\<rparr> =
     (Inr (), \<lparr>events =
        [Called GetAuthInstance, Called GetDbInstance,
         Logged Info ([CHR 0x0A] @ rocket @ '' Insforge Backend Starting...'') [],
         Logged Info (check_mark @ '' Admin configured: admin@example.com'') [],
         Called InitializeApiKey, Called GetUserTableCount,
         Logged Info (check_mark @ '' Database connected to PostgreSQL'')
           [(''host'', ''localhost''), (''port'', ''5432''), (''database'', ''insforge'')],
         Logged Info ''API key generated: ik_1'' [],
         Logged Info setup_complete []],
       outside = local_backend\<rparr>)"
    by (simp add: seedBackend_def seedBackend_try_def seedDefaultAIConfigs_def ensureFirstAdmin_def
      await_def invoke_def logger_def Let_def backend_services_def local_backend_def
      table_count_def)
  have "filter (mentions ''change-this-password'')
     (events (snd (seedBackend (backend_services ''ik_1'' 0)
        \<lparr>events = [], outside = local_backend\<rparr>))) = []"
    unfolding run
    by (simp add: sublist_code check_mark_def rocket_def setup_complete_def)
  with run show ?thesis
    by (simp add: backend_services_def local_backend_def)
qed

text \<open>
  Claim C8, amended. When \<open>ADMIN_EMAIL\<close> and \<open>ADMIN_PASSWORD\<close> are unset (and the two
  singleton accessors have returned), \<open>seedBackend\<close> runs its \<^verbatim>\<open>try\<close> block with the
  placeholders \<open>admin@example.com\<close> and \<open>change-this-password\<close>. The password is only
  tested for presence: the \<^verbatim>\<open>try\<close> block does the same, and logs the same, for every
  other non-empty password, so the value of the password reaches no log line. The run
  returns normally unless a collaborator throws a value that the catch block cannot
  render. It logs, right after the starting line, the Info line "Admin configured:"
  with the placeholder email, and it logs no warning.
\<close>

theorem seedBackend_placeholder_admin:
  assumes "AuthService_getInstance sv (outside w) = (Inr (), x1)"
    and "DatabaseManager_getInstance sv x1 = (Inr (), x2)"
    and "process_env sv x2 ''ADMIN_EMAIL'' = None"
    and "process_env sv x2 ''ADMIN_PASSWORD'' = None"
  shows "seedBackend sv w =
       (case seedBackend_try sv ''admin@example.com'' ''change-this-password''
          \<lparr>events = events w @ [Called GetAuthInstance, Called GetDbInstance], outside = x2\<rparr> of
          (Inr _, w') \<Rightarrow> (Inr (), w')
        | (Inl error, w') \<Rightarrow> seedBackend_catch error w') \<and>
     (\<forall>password. password \<noteq> [] \<longrightarrow>
        seedBackend_try sv ''admin@example.com'' password
          \<lparr>events = events w @ [Called GetAuthInstance, Called GetDbInstance], outside = x2\<rparr> =
        seedBackend_try sv ''admin@example.com'' ''change-this-password''
          \<lparr>events = events w @ [Called GetAuthInstance, Called GetDbInstance], outside = x2\<rparr>) \<and>
     (failure_renderable sv x2 \<longrightarrow> fst (seedBackend sv w) = Inr ()) \<and>
     take 4 (emitted w (snd (seedBackend sv w))) =
       [Called GetAuthInstance, Called GetDbInstance, start_event,
        Logged Info (check_mark @ '' Admin configured: admin@example.com'') []] \<and>
     logs_at Warn (emitted w (snd (seedBackend sv w))) = []"
proof -
  let ?w2 = "\<lparr>events = events w @ [Called GetAuthInstance, Called GetDbInstance], outside = x2\<rparr>"
  let ?body = "seedBackend_try sv ''admin@example.com'' ''change-this-password'' ?w2"
  let ?new = "emitted w (snd (seedBackend sv w))"
  have run: "seedBackend sv w =
       (case ?body of
          (Inr _, w') \<Rightarrow> (Inr (), w')
        | (Inl error, w') \<Rightarrow> seedBackend_catch error w')"
    using seedBackend_acquired [OF assms(1,2)] assms(3,4) by simp
  have same: "\<forall>password. password \<noteq> [] \<longrightarrow>
      seedBackend_try sv ''admin@example.com'' password ?w2 = ?body"
    by (intro allI impI seedBackend_try_password) simp_all
  have admin: "admin_event ''admin@example.com'' ''change-this-password'' =
      Logged Info (check_mark @ '' Admin configured: admin@example.com'') []"
    by (simp add: admin_event_def)
  from seedBackend_events [OF assms(1,2)] assms(3,4)
  obtain rest tail where new: "?new =
      Called GetAuthInstance # Called GetDbInstance # start_event #
      admin_event ''admin@example.com'' ''change-this-password'' # rest @ tail"
    and rest: "list_all quiet rest"
    and tail: "case fst ?body of
        Inl error \<Rightarrow>
          (case error_text error of
             Inr msg \<Rightarrow>
               tail = [Logged Error ''Error during setup'' [(''error'', msg)]] \<and>
               fst (seedBackend sv w) = Inr ()
           | Inl t \<Rightarrow> tail = [] \<and> fst (seedBackend sv w) = Inl t)
      | Inr _ \<Rightarrow> tail = [] \<and> fst (seedBackend sv w) = Inr () \<and>
          (\<exists>a b. map step_of rest = 3 # 4 # 5 # replicate a 6 @ replicate b 7 @ [8, 8])"
    by (simp only: or_default.simps) (elim exE conjE, rule that, assumption+)
  have "logs_at Warn tail = []"
    using tail
    by (cases "fst ?body"; cases "error_text (projl (fst ?body))") (simp_all add: logs_at_def)
  then have no_warn: "logs_at Warn ?new = []"
    unfolding new admin using logs_at_quiet [OF rest]
    by (simp add: logs_at_other logs_at_Called logs_at_append start_event_logged)
  have first: "take 4 ?new =
       [Called GetAuthInstance, Called GetDbInstance, start_event,
        Logged Info (check_mark @ '' Admin configured: admin@example.com'') []]"
    unfolding new admin by simp
  have returns: "fst (seedBackend sv w) = Inr ()" if "failure_renderable sv x2"
  proof (cases "fst ?body")
    case (Inr u)
    with tail show ?thesis by simp
  next
    case (Inl error)
    have "service_failure sv x2 \<noteq> None"
    proof
      assume "service_failure sv x2 = None"
      then have "fst ?body = Inr ()"
        by (intro seedBackend_try_returns) simp
      with Inl show False by simp
    qed
    then obtain e x where failure: "service_failure sv x2 = Some (e, x)"
      by (cases "service_failure sv x2") auto
    then have "fst ?body = Inl e \<and> outside (snd ?body) = x"
      by (intro seedBackend_try_throws) simp
    with Inl have "e = error" by simp
    with that failure have "renderable error"
      by (simp add: failure_renderable_def)
    then obtain msg where "error_text error = Inr msg"
      using renderable_text by blast
    with tail Inl show ?thesis by simp
  qed
  from run same first no_warn returns show ?thesis by (intro conjI impI)
qed

theorem seedBackend_placeholder_admin_witness:
  "process_env (backend_services ''ik_1'' 0) local_backend ''ADMIN_EMAIL'' = None \<and>
   process_env (backend_services ''ik_1'' 0) local_backend ''ADMIN_PASSWORD'' = None \<and>
   failure_renderable (backend_services ''ik_1'' 0) local_backend \<and>
   fst (seedBackend (backend_services ''ik_1'' 0) \<lparr>events = [], outside = local_backend\<rparr>) = Inr () \<and>
   take 4 (emitted \<lparr>events = [], outside = local_backend\<rparr>
     (snd (seedBackend (backend_services ''ik_1'' 0) \<lparr>events = [], outside = local_backend\<rparr>))) =
       [Called GetAuthInstance, Called GetDbInstance, start_event,
        Logged Info (check_mark @ '' Admin configured: admin@example.com'') []] \<and>
   seedBackend_try (backend_services ''ik_1'' 0) ''admin@example.com'' ''hunter2''
     \<lparr>events = [Called GetAuthInstance, Called GetDbInstance], outside = local_backend\<rparr> =
   seedBackend_try (backend_services ''ik_1'' 0) ''admin@example.com'' ''change-this-password''
     \<lparr>events = [Called GetAuthInstance, Called GetDbInstance], outside = local_backend\<rparr>"
proof -
  have auth: "AuthService_getInstance (backend_services ''ik_1'' 0)
      (outside \<lparr>events = [], outside = local_backend\<rparr>) = (Inr (), local_backend)"
    and db: "DatabaseManager_getInstance (backend_services ''ik_1'' 0) local_backend =
      (Inr (), local_backend)"
    and email: "process_env (backend_services ''ik_1'' 0) local_backend ''ADMIN_EMAIL'' = None"
    and password: "process_env (backend_services ''ik_1'' 0) local_backend ''ADMIN_PASSWORD'' = None"
    and renders: "failure_renderable (backend_services ''ik_1'' 0) local_backend"
    by (simp_all add: backend_services_def local_backend_def failure_renderable_def
        service_failure_def)
  note run = seedBackend_placeholder_admin [OF auth db email password]
  have other: "''hunter2'' \<noteq> []"
    by simp
  from run have same: "seedBackend_try (backend_services ''ik_1'' 0) ''admin@example.com'' ''hunter2''
     \<lparr>events = events \<lparr>events = [], outside = local_backend\<rparr> @
        [Called GetAuthInstance, Called GetDbInstance], outside = local_backend\<rparr> =
   seedBackend_try (backend_services ''ik_1'' 0) ''admin@example.com'' ''change-this-password''
     \<lparr>events = events \<lparr>events = [], outside = local_backend\<rparr> @
        [Called GetAuthInstance, Called GetDbInstance], outside = local_backend\<rparr>"
    using other by blast
  from run renders have returns:
    "fst (seedBackend (backend_services ''ik_1'' 0) \<lparr>events = [], outside = local_backend\<rparr>) = Inr ()"
    by blast
  from email password renders returns
    run [THEN conjunct2, THEN conjunct2, THEN conjunct2, THEN conjunct1] same
  show ?thesis by simp
qed

end
